theory Spec2Isabelle
  imports Main
begin

unbundle bit_operations_syntax

section \<open>The BPF endpoint manager of \<^verbatim>\<open>dataplane/linux/bpf_ep_mgr.go\<close>\<close>

text \<open>
  A shallow embedding of the Go file. Mutation of the manager is explicit state passing,
  Go maps are partial functions, \<^verbatim>\<open>set.Set\<close> values are HOL sets, and every panic of
  the source (a \<^verbatim>\<open>log.Panic\<close> call or a nil pointer dereference) is the \<open>Inl\<close> branch
  of a sum type.
\<close>

subsection \<open>Panics and Go error values\<close>

datatype panic = NilPointerDereference | LogPanic string

text \<open>A Go \<^verbatim>\<open>error\<close> value: \<open>None\<close> is \<^verbatim>\<open>nil\<close>, \<open>Some s\<close> an error with text \<open>s\<close>.\<close>

type_synonym go_error = "string option"

subsection \<open>Attach points (lines 506--608)\<close>

text \<open>
  \<^verbatim>\<open>PolDirection\<close>, \<^verbatim>\<open>TCHook\<close>, \<^verbatim>\<open>ToOrFromEp\<close> and \<^verbatim>\<open>EndpointType\<close> are string types
  with the declared constants as their only values in this file; each is a datatype, with
  the constant's string given by a \<open>_str\<close> function.
\<close>

datatype PolDirection = PolDirnIngress | PolDirnEgress

datatype TCHook = TCHookIngress | TCHookEgress

datatype ToOrFromEp = FromEp | ToEp

datatype EndpointType = EpTypeWorkload | EpTypeHost | EpTypeTunnel

fun TCHook_str :: "TCHook \<Rightarrow> string" where
  "TCHook_str TCHookIngress = ''ingress''"
| "TCHook_str TCHookEgress = ''egress''"

fun ToOrFromEp_str :: "ToOrFromEp \<Rightarrow> string" where
  "ToOrFromEp_str FromEp = ''from''"
| "ToOrFromEp_str ToEp = ''to''"

fun EndpointType_str :: "EndpointType \<Rightarrow> string" where
  "EndpointType_str EpTypeWorkload = ''workload''"
| "EndpointType_str EpTypeHost = ''host''"
| "EndpointType_str EpTypeTunnel = ''tunnel''"

record TCAttachPoint =
  Section :: string
  Hook :: TCHook
  Iface :: string
  CompileFlags :: int

definition CompileFlagHostEp :: int where "CompileFlagHostEp = 1"
definition CompileFlagIngress :: int where "CompileFlagIngress = 2"
definition CompileFlagTunnel :: int where "CompileFlagTunnel = 4"
definition CompileFlagCgroup :: int where "CompileFlagCgroup = 8"

text \<open>\<^verbatim>\<open>fmt.Sprintf("calico_%s_%s_ep", fromOrTo, endpointType)\<close>\<close>

definition BPFSectionName :: "EndpointType \<Rightarrow> ToOrFromEp \<Rightarrow> string" where
  "BPFSectionName endpointType fromOrTo =
     ''calico_'' @ ToOrFromEp_str fromOrTo @ ''_'' @ EndpointType_str endpointType @ ''_ep''"

text \<open>The package-level map \<^verbatim>\<open>bpfSectionToFlags\<close> after \<^verbatim>\<open>init()\<close> has run.\<close>

definition bpfSectionToFlags :: "string \<rightharpoonup> int" where
  "bpfSectionToFlags = Map.empty
     (BPFSectionName EpTypeWorkload FromEp \<mapsto> 0,
      BPFSectionName EpTypeWorkload ToEp \<mapsto> CompileFlagIngress,
      BPFSectionName EpTypeHost FromEp \<mapsto> CompileFlagHostEp OR CompileFlagIngress,
      BPFSectionName EpTypeHost ToEp \<mapsto> CompileFlagHostEp,
      BPFSectionName EpTypeTunnel FromEp \<mapsto>
        CompileFlagHostEp OR CompileFlagIngress OR CompileFlagTunnel,
      BPFSectionName EpTypeTunnel ToEp \<mapsto> CompileFlagHostEp OR CompileFlagTunnel)"

text \<open>An unknown section name is a \<^verbatim>\<open>log.Panic\<close>.\<close>

definition BPFSectionToFlags :: "string \<Rightarrow> panic + int" where
  "BPFSectionToFlags section =
     (case bpfSectionToFlags section of
        None \<Rightarrow> Inl (LogPanic ''Bug: unknown BPF section name'')
      | Some flags \<Rightarrow> Inr flags)"

text \<open>Lines 556--570: the hook for an endpoint type and a policy direction.\<close>

definition hookFor :: "EndpointType \<Rightarrow> PolDirection \<Rightarrow> TCHook" where
  "hookFor endpointType policyDirection =
     (if endpointType = EpTypeWorkload then
        (if policyDirection = PolDirnIngress then TCHookEgress else TCHookIngress)
      else
        (if policyDirection = PolDirnIngress then TCHookIngress else TCHookEgress))"

text \<open>Lines 572--577: the local \<^verbatim>\<open>toOrFrom\<close>.\<close>

definition toOrFromFor :: "TCHook \<Rightarrow> ToOrFromEp" where
  "toOrFromFor hook = (if hook = TCHookIngress then FromEp else ToEp)"

definition calculateTCAttachPoint ::
  "EndpointType \<Rightarrow> PolDirection \<Rightarrow> string \<Rightarrow> panic + TCAttachPoint" where
  "calculateTCAttachPoint endpointType policyDirection ifaceName =
     (let hook = hookFor endpointType policyDirection;
          toOrFrom = toOrFromFor hook;
          section = BPFSectionName endpointType toOrFrom
      in case BPFSectionToFlags section of
           Inl p \<Rightarrow> Inl p
         | Inr flags \<Rightarrow>
             Inr \<lparr>Section = section, Hook = hook, Iface = ifaceName, CompileFlags = flags\<rparr>)"

subsection \<open>The datamodel of package \<^verbatim>\<open>proto\<close>, as this file uses it\<close>

datatype WorkloadEndpointID =
  WorkloadEndpointID (OrchestratorId: string) (WorkloadId: string) (EndpointId: string)

datatype PolicyID = PolicyID (pol_Tier: string) (pol_Name: string)

datatype ProfileID = ProfileID (prof_Name: string)

datatype Rule = Rule (Action: string)

text \<open>
  A repeated message field never holds a nil element after decoding, so \<^verbatim>\<open>[]*TierInfo\<close>
  is a list of tiers. A singular message field (\<^verbatim>\<open>Id\<close>, \<^verbatim>\<open>Endpoint\<close>, \<^verbatim>\<open>Policy\<close>,
  \<^verbatim>\<open>Profile\<close>) is a pointer that may be nil: an \<open>option\<close>.
\<close>

record TierInfo =
  tier_Name :: string
  IngressPolicies :: "string list"
  EgressPolicies :: "string list"

record WorkloadEndpoint =
  wep_Name :: string
  Tiers :: "TierInfo list"
  ProfileIds :: "string list"

record Policy =
  pol_InboundRules :: "Rule list"
  pol_OutboundRules :: "Rule list"

record Profile =
  prof_InboundRules :: "Rule list"
  prof_OutboundRules :: "Rule list"

record WorkloadEndpointUpdate =
  weu_Id :: "WorkloadEndpointID option"
  weu_Endpoint :: "WorkloadEndpoint option"

record WorkloadEndpointRemove =
  wer_Id :: "WorkloadEndpointID option"

record ActivePolicyUpdate =
  apu_Id :: "PolicyID option"
  apu_Policy :: "Policy option"

record ActivePolicyRemove =
  apr_Id :: "PolicyID option"

record ActiveProfileUpdate =
  afu_Id :: "ProfileID option"
  afu_Profile :: "Profile option"

record ActiveProfileRemove =
  afr_Id :: "ProfileID option"

subsection \<open>Interface messages\<close>

text \<open>\<^verbatim>\<open>ifacemonitor.State\<close>; the zero value of the string type is \<open>StateUnknown\<close>.\<close>

datatype State = StateUnknown | StateDown | StateUp

text \<open>A \<^verbatim>\<open>net.IP\<close> in its 4-byte form.\<close>

type_synonym IP = "nat list"

record ifaceUpdate =
  iu_Name :: string
  iu_State :: State

text \<open>
  \<^verbatim>\<open>Addrs\<close> is a \<^verbatim>\<open>set.Set\<close> of strings that may be nil; the list is the order in
  which \<^verbatim>\<open>Iter\<close> visits it.
\<close>

record ifaceAddrsUpdate =
  iau_Name :: string
  iau_Addrs :: "string list option"

datatype message =
  Msg_ifaceUpdate ifaceUpdate
| Msg_ifaceAddrsUpdate "ifaceAddrsUpdate option"
| Msg_WorkloadEndpointUpdate WorkloadEndpointUpdate
| Msg_WorkloadEndpointRemove WorkloadEndpointRemove
| Msg_ActivePolicyUpdate ActivePolicyUpdate
| Msg_ActivePolicyRemove ActivePolicyRemove
| Msg_ActiveProfileUpdate ActiveProfileUpdate
| Msg_ActiveProfileRemove ActiveProfileRemove
| Msg_other

subsection \<open>The manager (lines 44--95)\<close>

record epIface =
  ep_State :: State
  addrs :: "IP list"

text \<open>
  The caches hold pointers; reading a key that is absent and reading a stored nil both give
  nil, and the file never tells them apart, so each cache is a partial map whose \<open>None\<close> is
  that nil. \<^verbatim>\<open>dataIfaceRegex\<close> is the regular expression's \<^verbatim>\<open>MatchString\<close>.
\<close>

record bpfEndpointManager =
  wlEps :: "WorkloadEndpointID \<rightharpoonup> WorkloadEndpoint"
  policies :: "PolicyID \<rightharpoonup> Policy"
  profiles :: "ProfileID \<rightharpoonup> Profile"
  ifaces :: "string \<rightharpoonup> epIface"
  policiesToWorkloads :: "PolicyID \<rightharpoonup> WorkloadEndpointID set"
  profilesToWorkloads :: "ProfileID \<rightharpoonup> WorkloadEndpointID set"
  dirtyWorkloads :: "WorkloadEndpointID set"
  dirtyIfaces :: "string set"
  bpfLogLevel :: string
  fibLookupEnabled :: bool
  dataIfaceRegex :: "string \<Rightarrow> bool"
  epToHostDrop :: bool
  natTunnelMTU :: int

definition newBPFEndpointManager ::
  "string \<Rightarrow> bool \<Rightarrow> bool \<Rightarrow> (string \<Rightarrow> bool) \<Rightarrow> int \<Rightarrow> bpfEndpointManager" where
  "newBPFEndpointManager logLevel fib dropEpToHost regex mtu =
     \<lparr>wlEps = Map.empty, policies = Map.empty, profiles = Map.empty, ifaces = Map.empty,
      policiesToWorkloads = Map.empty, profilesToWorkloads = Map.empty,
      dirtyWorkloads = {}, dirtyIfaces = {},
      bpfLogLevel = logLevel, fibLookupEnabled = fib, dataIfaceRegex = regex,
      epToHostDrop = dropEpToHost, natTunnelMTU = mtu\<rparr>"

subsection \<open>Interface updates (lines 127--169)\<close>

text \<open>\<^verbatim>\<open>m.ifaces[name]\<close>: the zero \<^verbatim>\<open>epIface\<close> when the key is absent.\<close>

definition ifaceOf :: "bpfEndpointManager \<Rightarrow> string \<Rightarrow> epIface" where
  "ifaceOf m name =
     (case ifaces m name of None \<Rightarrow> \<lparr>ep_State = StateUnknown, addrs = []\<rparr> | Some i \<Rightarrow> i)"

definition onInterfaceUpdate :: "ifaceUpdate \<Rightarrow> bpfEndpointManager \<Rightarrow> bpfEndpointManager" where
  "onInterfaceUpdate update m =
     (let m1 =
        (if iu_State update = StateUnknown then m\<lparr>ifaces := (ifaces m)(iu_Name update := None)\<rparr>
         else m\<lparr>ifaces := (ifaces m)(iu_Name update \<mapsto>
                  (ifaceOf m (iu_Name update))\<lparr>ep_State := iu_State update\<rparr>)\<rparr>)
      in m1\<lparr>dirtyIfaces := insert (iu_Name update) (dirtyIfaces m1)\<rparr>)"

text \<open>
  \<open>parseIP4\<close> stands for \<^verbatim>\<open>net.ParseIP\<close> followed by \<^verbatim>\<open>To4\<close> (package \<^verbatim>\<open>net\<close>): \<open>None\<close>
  when either returns nil.
\<close>

definition onInterfaceAddrsUpdate ::
  "(string \<Rightarrow> IP option) \<Rightarrow> ifaceAddrsUpdate option \<Rightarrow> bpfEndpointManager \<Rightarrow> bpfEndpointManager"
  where
  "onInterfaceAddrsUpdate parseIP4 update m =
     (case update of
        None \<Rightarrow> m
      | Some u \<Rightarrow>
          (case iau_Addrs u of
             None \<Rightarrow> m
           | Some strs \<Rightarrow>
               (let as = List.map_filter parseIP4 strs;
                    m1 = m\<lparr>ifaces := (ifaces m)(iau_Name u \<mapsto> (ifaceOf m (iau_Name u))\<lparr>addrs := as\<rparr>)\<rparr>
                in m1\<lparr>dirtyIfaces := insert (iau_Name u) (dirtyIfaces m1)\<rparr>)))"

subsection \<open>Workload endpoints and the reverse indices (lines 171--275)\<close>

text \<open>
  \<^verbatim>\<open>polSet := idx[k]; if polSet == nil { continue }; polSet.Discard(wlID)\<close>: the set is
  shared with the map, so discarding from it updates the map's entry.
\<close>

definition discardUser :: "'w \<Rightarrow> 'k \<Rightarrow> ('k \<rightharpoonup> 'w set) \<Rightarrow> ('k \<rightharpoonup> 'w set)" where
  "discardUser wlID k idx =
     (case idx k of None \<Rightarrow> idx | Some polSet \<Rightarrow> idx(k \<mapsto> polSet - {wlID}))"

text \<open>\<^verbatim>\<open>if idx[k] == nil { idx[k] = set.New() }; idx[k].Add(wlID)\<close>\<close>

definition addUser :: "'w \<Rightarrow> 'k \<Rightarrow> ('k \<rightharpoonup> 'w set) \<Rightarrow> ('k \<rightharpoonup> 'w set)" where
  "addUser wlID k idx =
     (case idx k of None \<Rightarrow> idx(k \<mapsto> {wlID}) | Some polSet \<Rightarrow> idx(k \<mapsto> insert wlID polSet))"

definition discardPolicyUser ::
  "WorkloadEndpointID \<Rightarrow> string \<Rightarrow> string \<Rightarrow> bpfEndpointManager \<Rightarrow> bpfEndpointManager" where
  "discardPolicyUser wlID tierName pol m =
     m\<lparr>policiesToWorkloads := discardUser wlID (PolicyID tierName pol) (policiesToWorkloads m)\<rparr>"

definition discardProfileUser ::
  "WorkloadEndpointID \<Rightarrow> string \<Rightarrow> bpfEndpointManager \<Rightarrow> bpfEndpointManager" where
  "discardProfileUser wlID profName m =
     m\<lparr>profilesToWorkloads := discardUser wlID (ProfileID profName) (profilesToWorkloads m)\<rparr>"

definition addPolicyUser ::
  "WorkloadEndpointID \<Rightarrow> string \<Rightarrow> string \<Rightarrow> bpfEndpointManager \<Rightarrow> bpfEndpointManager" where
  "addPolicyUser wlID tierName pol m =
     m\<lparr>policiesToWorkloads := addUser wlID (PolicyID tierName pol) (policiesToWorkloads m)\<rparr>"

definition addProfileUser ::
  "WorkloadEndpointID \<Rightarrow> string \<Rightarrow> bpfEndpointManager \<Rightarrow> bpfEndpointManager" where
  "addProfileUser wlID profName m =
     m\<lparr>profilesToWorkloads := addUser wlID (ProfileID profName) (profilesToWorkloads m)\<rparr>"

text \<open>
  The loop over the tiers of an endpoint that discards the endpoint from the policy index
  (lines 179--200 of the update, lines 251--272 of the remove: the same text).
\<close>

definition detachTier ::
  "WorkloadEndpointID \<Rightarrow> TierInfo \<Rightarrow> bpfEndpointManager \<Rightarrow> bpfEndpointManager" where
  "detachTier wlID t m =
     fold (discardPolicyUser wlID (tier_Name t)) (EgressPolicies t)
       (fold (discardPolicyUser wlID (tier_Name t)) (IngressPolicies t) m)"

definition detachTiers ::
  "WorkloadEndpointID \<Rightarrow> WorkloadEndpoint \<Rightarrow> bpfEndpointManager \<Rightarrow> bpfEndpointManager" where
  "detachTiers wlID wl m = fold (detachTier wlID) (Tiers wl) m"

text \<open>Lines 202--209: the loop over the profile ids of the old endpoint.\<close>

definition detachProfiles ::
  "WorkloadEndpointID \<Rightarrow> WorkloadEndpoint \<Rightarrow> bpfEndpointManager \<Rightarrow> bpfEndpointManager" where
  "detachProfiles wlID wl m = fold (discardProfileUser wlID) (ProfileIds wl) m"

text \<open>
  Lines 212--242: the loop over the tiers of the new endpoint. The loop over the profile
  ids (lines 233--241) is inside the body of the loop over the tiers.
\<close>

definition attachTier ::
  "WorkloadEndpointID \<Rightarrow> WorkloadEndpoint \<Rightarrow> TierInfo \<Rightarrow> bpfEndpointManager \<Rightarrow> bpfEndpointManager"
  where
  "attachTier wlID wl t m =
     fold (addProfileUser wlID) (ProfileIds wl)
       (fold (addPolicyUser wlID (tier_Name t)) (EgressPolicies t)
          (fold (addPolicyUser wlID (tier_Name t)) (IngressPolicies t) m))"

definition attachTiers ::
  "WorkloadEndpointID \<Rightarrow> WorkloadEndpoint \<Rightarrow> bpfEndpointManager \<Rightarrow> bpfEndpointManager" where
  "attachTiers wlID wl m = fold (attachTier wlID wl) (Tiers wl) m"

text \<open>
  \<^verbatim>\<open>*msg.Id\<close> panics on a nil id. The endpoint pointer is stored at line 211 before
  \<^verbatim>\<open>wl.Tiers\<close> is read at line 212, which panics on a nil endpoint.
\<close>

definition onWorkloadEndpointUpdate ::
  "WorkloadEndpointUpdate \<Rightarrow> bpfEndpointManager \<Rightarrow> panic + bpfEndpointManager" where
  "onWorkloadEndpointUpdate msg m =
     (case weu_Id msg of
        None \<Rightarrow> Inl NilPointerDereference
      | Some wlID \<Rightarrow>
          (let m1 = (case wlEps m wlID of
                       None \<Rightarrow> m
                     | Some oldWL \<Rightarrow> detachProfiles wlID oldWL (detachTiers wlID oldWL m));
               m2 = m1\<lparr>wlEps := (wlEps m1)(wlID := weu_Endpoint msg)\<rparr>
           in case weu_Endpoint msg of
                None \<Rightarrow> Inl NilPointerDereference
              | Some wl \<Rightarrow>
                  (let m3 = attachTiers wlID wl m2
                   in Inr (m3\<lparr>dirtyWorkloads := insert wlID (dirtyWorkloads m3)\<rparr>))))"

text \<open>
  \<^verbatim>\<open>wl := m.wlEps[wlID]\<close> is nil for an id that is not cached, and \<^verbatim>\<open>wl.Tiers\<close> at
  line 251 then panics. The function has no loop over \<^verbatim>\<open>wl.ProfileIds\<close>.
\<close>

definition onWorkloadEnpdointRemove ::
  "WorkloadEndpointRemove \<Rightarrow> bpfEndpointManager \<Rightarrow> panic + bpfEndpointManager" where
  "onWorkloadEnpdointRemove msg m =
     (case wer_Id msg of
        None \<Rightarrow> Inl NilPointerDereference
      | Some wlID \<Rightarrow>
          (case wlEps m wlID of
             None \<Rightarrow> Inl NilPointerDereference
           | Some wl \<Rightarrow>
               (let m1 = detachTiers wlID wl m;
                    m2 = m1\<lparr>wlEps := (wlEps m1)(wlID := None)\<rparr>
                in Inr (m2\<lparr>dirtyWorkloads := insert wlID (dirtyWorkloads m2)\<rparr>))))"

subsection \<open>Policies and profiles (lines 277--335)\<close>

definition markPolicyUsersDirty :: "PolicyID \<Rightarrow> bpfEndpointManager \<Rightarrow> bpfEndpointManager" where
  "markPolicyUsersDirty polID m =
     (case policiesToWorkloads m polID of
        None \<Rightarrow> m
      | Some wls \<Rightarrow> m\<lparr>dirtyWorkloads := dirtyWorkloads m \<union> wls\<rparr>)"

definition markProfileUsersDirty :: "ProfileID \<Rightarrow> bpfEndpointManager \<Rightarrow> bpfEndpointManager" where
  "markProfileUsersDirty profID m =
     (case profilesToWorkloads m profID of
        None \<Rightarrow> m
      | Some wls \<Rightarrow> m\<lparr>dirtyWorkloads := dirtyWorkloads m \<union> wls\<rparr>)"

definition onPolicyUpdate ::
  "ActivePolicyUpdate \<Rightarrow> bpfEndpointManager \<Rightarrow> panic + bpfEndpointManager" where
  "onPolicyUpdate msg m =
     (case apu_Id msg of
        None \<Rightarrow> Inl NilPointerDereference
      | Some polID \<Rightarrow>
          Inr (markPolicyUsersDirty polID (m\<lparr>policies := (policies m)(polID := apu_Policy msg)\<rparr>)))"

definition onPolicyRemove ::
  "ActivePolicyRemove \<Rightarrow> bpfEndpointManager \<Rightarrow> panic + bpfEndpointManager" where
  "onPolicyRemove msg m =
     (case apr_Id msg of
        None \<Rightarrow> Inl NilPointerDereference
      | Some polID \<Rightarrow>
          (let m1 = markPolicyUsersDirty polID m;
               m2 = m1\<lparr>policies := (policies m1)(polID := None)\<rparr>
           in Inr (m2\<lparr>policiesToWorkloads := (policiesToWorkloads m2)(polID := None)\<rparr>)))"

definition onProfileUpdate ::
  "ActiveProfileUpdate \<Rightarrow> bpfEndpointManager \<Rightarrow> panic + bpfEndpointManager" where
  "onProfileUpdate msg m =
     (case afu_Id msg of
        None \<Rightarrow> Inl NilPointerDereference
      | Some profID \<Rightarrow>
          Inr (markProfileUsersDirty profID
                 (m\<lparr>profiles := (profiles m)(profID := afu_Profile msg)\<rparr>)))"

definition onProfileRemove ::
  "ActiveProfileRemove \<Rightarrow> bpfEndpointManager \<Rightarrow> panic + bpfEndpointManager" where
  "onProfileRemove msg m =
     (case afr_Id msg of
        None \<Rightarrow> Inl NilPointerDereference
      | Some profID \<Rightarrow>
          (let m1 = markProfileUsersDirty profID m;
               m2 = m1\<lparr>profiles := (profiles m1)(profID := None)\<rparr>
           in Inr (m2\<lparr>profilesToWorkloads := (profilesToWorkloads m2)(profID := None)\<rparr>)))"

subsection \<open>The dispatcher (lines 97--125)\<close>

fun OnUpdate ::
  "(string \<Rightarrow> IP option) \<Rightarrow> message \<Rightarrow> bpfEndpointManager \<Rightarrow> panic + bpfEndpointManager" where
  "OnUpdate parseIP4 (Msg_ifaceUpdate msg) m = Inr (onInterfaceUpdate msg m)"
| "OnUpdate parseIP4 (Msg_ifaceAddrsUpdate msg) m = Inr (onInterfaceAddrsUpdate parseIP4 msg m)"
| "OnUpdate parseIP4 (Msg_WorkloadEndpointUpdate msg) m = onWorkloadEndpointUpdate msg m"
| "OnUpdate parseIP4 (Msg_WorkloadEndpointRemove msg) m = onWorkloadEnpdointRemove msg m"
| "OnUpdate parseIP4 (Msg_ActivePolicyUpdate msg) m = onPolicyUpdate msg m"
| "OnUpdate parseIP4 (Msg_ActivePolicyRemove msg) m = onPolicyRemove msg m"
| "OnUpdate parseIP4 (Msg_ActiveProfileUpdate msg) m = onProfileUpdate msg m"
| "OnUpdate parseIP4 (Msg_ActiveProfileRemove msg) m = onProfileRemove msg m"
| "OnUpdate parseIP4 Msg_other m = Inr m"

text \<open>A sequence of calls of the dispatcher; a panic ends it.\<close>

fun OnUpdates ::
  "(string \<Rightarrow> IP option) \<Rightarrow> message list \<Rightarrow> bpfEndpointManager \<Rightarrow> panic + bpfEndpointManager"
  where
  "OnUpdates parseIP4 [] m = Inr m"
| "OnUpdates parseIP4 (msg # msgs) m =
     (case OnUpdate parseIP4 msg m of Inl p \<Rightarrow> Inl p | Inr m' \<Rightarrow> OnUpdates parseIP4 msgs m')"

subsection \<open>The rule extractor (lines 610--645)\<close>

definition directionalPols :: "PolDirection \<Rightarrow> TierInfo \<Rightarrow> string list" where
  "directionalPols direction tier =
     (if direction = PolDirnEgress then EgressPolicies tier else IngressPolicies tier)"

text \<open>
  Lines 624--631. \<^verbatim>\<open>pol := m.policies[...]\<close> is nil for a policy that is not cached;
  \<^verbatim>\<open>pol.InboundRules\<close> and \<^verbatim>\<open>pol.OutboundRules\<close> read a field through that pointer,
  which panics.
\<close>

fun extractPols ::
  "bpfEndpointManager \<Rightarrow> PolDirection \<Rightarrow> string \<Rightarrow> string list \<Rightarrow> Rule list list
   \<Rightarrow> panic + Rule list list" where
  "extractPols m direction tierName [] pols = Inr pols"
| "extractPols m direction tierName (polName # rest) pols =
     (case policies m (PolicyID tierName polName) of
        None \<Rightarrow> Inl NilPointerDereference
      | Some pol \<Rightarrow>
          extractPols m direction tierName rest
            (pols @ [if direction = PolDirnIngress then pol_InboundRules pol
                     else pol_OutboundRules pol]))"

fun extractTiers ::
  "bpfEndpointManager \<Rightarrow> PolDirection \<Rightarrow> TierInfo list \<Rightarrow> Rule list list list
   \<Rightarrow> panic + Rule list list list" where
  "extractTiers m direction [] allRules = Inr allRules"
| "extractTiers m direction (tier # rest) allRules =
     (if length (directionalPols direction tier) = 0 then extractTiers m direction rest allRules
      else
        (case extractPols m direction (tier_Name tier) (directionalPols direction tier) [] of
           Inl p \<Rightarrow> Inl p
         | Inr pols \<Rightarrow> extractTiers m direction rest (allRules @ [pols])))"

text \<open>Lines 634--642, with the same field read through a profile pointer.\<close>

fun extractProfs ::
  "bpfEndpointManager \<Rightarrow> PolDirection \<Rightarrow> string list \<Rightarrow> Rule list list
   \<Rightarrow> panic + Rule list list" where
  "extractProfs m direction [] profs = Inr profs"
| "extractProfs m direction (profName # rest) profs =
     (case profiles m (ProfileID profName) of
        None \<Rightarrow> Inl NilPointerDereference
      | Some prof \<Rightarrow>
          extractProfs m direction rest
            (profs @ [if direction = PolDirnIngress then prof_InboundRules prof
                      else prof_OutboundRules prof]))"

definition extractRules ::
  "bpfEndpointManager \<Rightarrow> TierInfo list \<Rightarrow> string list \<Rightarrow> PolDirection
   \<Rightarrow> panic + Rule list list list" where
  "extractRules m tiers2 profileNames direction =
     (case extractTiers m direction tiers2 [] of
        Inl p \<Rightarrow> Inl p
      | Inr allRules \<Rightarrow>
          (case extractProfs m direction profileNames [] of
             Inl p \<Rightarrow> Inl p
           | Inr profs \<Rightarrow> Inr (allRules @ [profs])))"

subsection \<open>Compiling and attaching (lines 362--408, 496--504 and 647--783)\<close>

text \<open>
  The answers of the processes and files outside the manager, one field for each external
  call: \<^verbatim>\<open>ioutil.TempDir\<close> (the error text or the directory), \<^verbatim>\<open>CompileTCProgramToFile\<close>
  with the options built at lines 668--686, the combined output and the error of
  \<^verbatim>\<open>tc filter add\<close>, the deferred sweep over the pinned maps (\<open>Some p\<close> when one of its
  \<^verbatim>\<open>log.Panic\<close> calls is reached), \<^verbatim>\<open>bpf.NewProgramGenerator\<close>, \<^verbatim>\<open>WriteProgram\<close>, and
  \<^verbatim>\<open>writeProcSys\<close>.
\<close>

record world =
  tempDir :: "string + string"
  compileTC :: "bpfEndpointManager \<Rightarrow> Rule list list list \<Rightarrow> TCAttachPoint \<Rightarrow> panic + go_error"
  tcFilterAdd :: "string \<Rightarrow> TCAttachPoint \<Rightarrow> string \<times> go_error"
  repinMaps :: "panic option"
  newProgramGenerator :: go_error
  writeProgram :: "Rule list list list \<Rightarrow> go_error"
  writeProcSys :: "string \<Rightarrow> string \<Rightarrow> go_error"

text \<open>\<^verbatim>\<open>bytes.Contains\<close>: the second byte string occurs in the first.\<close>

fun bytesContains :: "string \<Rightarrow> string \<Rightarrow> bool" where
  "bytesContains [] subslice = (subslice = [])"
| "bytesContains (c # cs) subslice =
     (take (length subslice) (c # cs) = subslice \<or> bytesContains cs subslice)"

text \<open>
  Lines 716--783. The deferred sweep runs after the return value is set; a panic in it
  replaces the return.
\<close>

definition AttachTCProgram :: "world \<Rightarrow> string \<Rightarrow> TCAttachPoint \<Rightarrow> panic + go_error" where
  "AttachTCProgram w fname attachPoint =
     (let (out, err) = tcFilterAdd w fname attachPoint;
          ret = (if err \<noteq> None then
                   (if bytesContains out ''Cannot find device'' then None else err)
                 else err)
      in case repinMaps w of Some p \<Rightarrow> Inl p | None \<Rightarrow> Inr ret)"

text \<open>
  Lines 647--711. Inside the branch for a failed attach, \<^verbatim>\<open>pg, err := ...\<close> at line 698
  declares a new \<^verbatim>\<open>err\<close> for that block; \<^verbatim>\<open>return err\<close> at line 708 returns this inner
  variable, which holds the result of \<^verbatim>\<open>WriteProgram\<close> and is nil whenever line 708 is
  reached.
\<close>

definition compileAndAttachProgram ::
  "world \<Rightarrow> bpfEndpointManager \<Rightarrow> Rule list list list \<Rightarrow> TCAttachPoint \<Rightarrow> panic + go_error"
  where
  "compileAndAttachProgram w m allRules attachPoint =
     (case tempDir w of
        Inl e \<Rightarrow> Inl (LogPanic ''Failed to make temporary directory'')
      | Inr dir \<Rightarrow>
          (case compileTC w m allRules attachPoint of
             Inl p \<Rightarrow> Inl p
           | Inr (Some e) \<Rightarrow> Inr (Some e)
           | Inr None \<Rightarrow>
               (case AttachTCProgram w (dir @ ''/redir_tc.o'') attachPoint of
                  Inl p \<Rightarrow> Inl p
                | Inr None \<Rightarrow> Inr None
                | Inr (Some e) \<Rightarrow>
                    (case newProgramGenerator w of
                       Some e1 \<Rightarrow> Inl (LogPanic ''Failed to write get code generator.'')
                     | None \<Rightarrow>
                         (let innerErr = writeProgram w allRules
                          in if innerErr \<noteq> None
                             then Inl (LogPanic ''Failed to write C file to buffer.'')
                             else Inr innerErr)))))"

definition compileAndAttachDataIfaceProgram ::
  "world \<Rightarrow> bpfEndpointManager \<Rightarrow> string \<Rightarrow> PolDirection \<Rightarrow> panic + go_error" where
  "compileAndAttachDataIfaceProgram w m ifaceName polDirection =
     (let rules = [[[Rule ''Allow'']]];
          epType = (if ifaceName = ''tunl0'' then EpTypeTunnel else EpTypeHost)
      in case calculateTCAttachPoint epType polDirection ifaceName of
           Inl p \<Rightarrow> Inl p
         | Inr ap \<Rightarrow> compileAndAttachProgram w m rules ap)"

definition setAcceptLocal :: "world \<Rightarrow> string \<Rightarrow> bool \<Rightarrow> go_error" where
  "setAcceptLocal w iface val =
     writeProcSys w (''/proc/sys/net/ipv4/conf/'' @ iface @ ''/accept_local'')
       (if val then ''1'' else ''0'')"

text \<open>
  Lines 379--394: the goroutine started for one interface, up to the error it records in
  \<^verbatim>\<open>errs[iface]\<close>. \<^verbatim>\<open>ensureQdisc\<close> runs two \<^verbatim>\<open>tc\<close> commands and ignores their results.
\<close>

definition dataIfaceWorker :: "world \<Rightarrow> bpfEndpointManager \<Rightarrow> string \<Rightarrow> panic + go_error" where
  "dataIfaceWorker w m iface =
     (case compileAndAttachDataIfaceProgram w m iface PolDirnIngress of
        Inl p \<Rightarrow> Inl p
      | Inr err1 \<Rightarrow>
          (case (if err1 = None then compileAndAttachDataIfaceProgram w m iface PolDirnEgress
                 else Inr err1) of
             Inl p \<Rightarrow> Inl p
           | Inr err2 \<Rightarrow> Inr (if err2 = None then setAcceptLocal w iface True else err2)))"

text \<open>
  Lines 362--408. The first pass over \<^verbatim>\<open>dirtyIfaces\<close> removes the names that do not match
  the regular expression or are not up and starts a worker for each of the others; the
  second pass removes the names whose recorded error is nil. The workers run concurrently
  and share nothing, so the result is given per interface; \<open>None\<close> stands for a panic
  in some worker.
\<close>

definition applyProgramsToDirtyDataInterfaces ::
  "world \<Rightarrow> bpfEndpointManager \<Rightarrow> bpfEndpointManager option" where
  "applyProgramsToDirtyDataInterfaces w m =
     (let started = {iface \<in> dirtyIfaces m.
                       dataIfaceRegex m iface \<and> ep_State (ifaceOf m iface) = StateUp}
      in if \<exists>iface \<in> started. isl (dataIfaceWorker w m iface) then None
         else Some (m\<lparr>dirtyIfaces :=
                        {iface \<in> started. dataIfaceWorker w m iface \<noteq> Inr None}\<rparr>))"

subsection \<open>Notions used to state the properties\<close>

text \<open>The members of a reverse-index entry; an absent entry has none.\<close>

definition users :: "('k \<rightharpoonup> 'w set) \<Rightarrow> 'k \<Rightarrow> 'w set" where
  "users idx k = (case idx k of None \<Rightarrow> {} | Some s \<Rightarrow> s)"

text \<open>The (tier, policy) edges an endpoint declares, ingress and egress, and its profile edges.\<close>

definition tierEdges :: "TierInfo \<Rightarrow> PolicyID list" where
  "tierEdges t = map (PolicyID (tier_Name t)) (IngressPolicies t @ EgressPolicies t)"

definition policyEdges :: "WorkloadEndpoint \<Rightarrow> PolicyID list" where
  "policyEdges wl = concat (map tierEdges (Tiers wl))"

definition profileEdges :: "WorkloadEndpoint \<Rightarrow> ProfileID list" where
  "profileEdges wl = map ProfileID (ProfileIds wl)"

text \<open>The ids whose cached endpoint references a policy, or lists a profile.\<close>

definition policyReferrers :: "bpfEndpointManager \<Rightarrow> PolicyID \<Rightarrow> WorkloadEndpointID set" where
  "policyReferrers m p = {w. \<exists>wl. wlEps m w = Some wl \<and> p \<in> set (policyEdges wl)}"

definition profileReferrers :: "bpfEndpointManager \<Rightarrow> ProfileID \<Rightarrow> WorkloadEndpointID set" where
  "profileReferrers m q = {w. \<exists>wl. wlEps m w = Some wl \<and> q \<in> set (profileEdges wl)}"

text \<open>
  The ordering that the comment above \<^verbatim>\<open>onPolicyRemove\<close> relies on ("should be a no-op due
  to the ordering guarantees of the calc graph"): a policy is removed only when no cached
  endpoint references it.
\<close>

definition policyRemovable :: "message \<Rightarrow> bpfEndpointManager \<Rightarrow> bool" where
  "policyRemovable msg m =
     (case msg of
        Msg_ActivePolicyRemove r \<Rightarrow>
          (case apr_Id r of None \<Rightarrow> True | Some polID \<Rightarrow> policyReferrers m polID = {})
      | _ \<Rightarrow> True)"

fun calcGraphOrdered ::
  "(string \<Rightarrow> IP option) \<Rightarrow> message list \<Rightarrow> bpfEndpointManager \<Rightarrow> bool" where
  "calcGraphOrdered parseIP4 [] m = True"
| "calcGraphOrdered parseIP4 (msg # msgs) m =
     (policyRemovable msg m \<and>
      (case OnUpdate parseIP4 msg m of
         Inl p \<Rightarrow> True
       | Inr m' \<Rightarrow> calcGraphOrdered parseIP4 msgs m'))"

text \<open>The two readings of the invariant of the policy index.\<close>

definition indexSound :: "bpfEndpointManager \<Rightarrow> bool" where
  "indexSound m = (\<forall>p. users (policiesToWorkloads m) p \<subseteq> policyReferrers m p)"

definition indexExact :: "bpfEndpointManager \<Rightarrow> bool" where
  "indexExact m = (\<forall>p. users (policiesToWorkloads m) p = policyReferrers m p)"

subsection \<open>Example inputs\<close>

definition exampleManager :: bpfEndpointManager where
  "exampleManager =
     newBPFEndpointManager ''debug'' True False (\<lambda>iface. take 3 iface = ''eth'') 1440"

definition wl1 :: WorkloadEndpointID where
  "wl1 = WorkloadEndpointID ''k8s'' ''default/wl1'' ''eth0''"

definition polX :: PolicyID where
  "polX = PolicyID ''tierA'' ''polX''"

definition prof1 :: ProfileID where
  "prof1 = ProfileID ''prof1''"

text \<open>An endpoint with one tier, whose ingress list names \<open>polX\<close>, and one profile.\<close>

definition endpointA :: WorkloadEndpoint where
  "endpointA = \<lparr>wep_Name = ''cali1'',
      Tiers = [\<lparr>tier_Name = ''tierA'', IngressPolicies = [''polX''], EgressPolicies = []\<rparr>],
      ProfileIds = [''prof1'']\<rparr>"

text \<open>An endpoint with no tier and the same profile.\<close>

definition endpointB :: WorkloadEndpoint where
  "endpointB = \<lparr>wep_Name = ''cali1'', Tiers = [], ProfileIds = [''prof1'']\<rparr>"

definition updateA :: WorkloadEndpointUpdate where
  "updateA = \<lparr>weu_Id = Some wl1, weu_Endpoint = Some endpointA\<rparr>"

definition updateB :: WorkloadEndpointUpdate where
  "updateB = \<lparr>weu_Id = Some wl1, weu_Endpoint = Some endpointB\<rparr>"

definition removeWl1 :: WorkloadEndpointRemove where
  "removeWl1 = \<lparr>wer_Id = Some wl1\<rparr>"

definition polY :: PolicyID where
  "polY = PolicyID ''tierA'' ''polY''"

text \<open>An endpoint whose only tier names \<open>polY\<close> in its egress list.\<close>

definition endpointC :: WorkloadEndpoint where
  "endpointC = \<lparr>wep_Name = ''cali1'',
      Tiers = [\<lparr>tier_Name = ''tierA'', IngressPolicies = [], EgressPolicies = [''polY'']\<rparr>],
      ProfileIds = []\<rparr>"

text \<open>An endpoint whose only tier names \<open>polX\<close> and then \<open>polY\<close> in its ingress list.\<close>

definition endpointD :: WorkloadEndpoint where
  "endpointD = \<lparr>wep_Name = ''cali1'',
      Tiers = [\<lparr>tier_Name = ''tierA'', IngressPolicies = [''polX'', ''polY''],
                EgressPolicies = []\<rparr>],
      ProfileIds = [''prof1'']\<rparr>"

definition removePolX :: ActivePolicyRemove where
  "removePolX = \<lparr>apr_Id = Some polX\<rparr>"

text \<open>\<open>wl1\<close> stops referencing \<open>polX\<close> before \<open>polX\<close> is removed.\<close>

definition orderedMessages :: "message list" where
  "orderedMessages =
     [Msg_WorkloadEndpointUpdate updateA,
      Msg_WorkloadEndpointUpdate \<lparr>weu_Id = Some wl1, weu_Endpoint = Some endpointC\<rparr>,
      Msg_ActivePolicyRemove removePolX]"

text \<open>\<open>polX\<close> is removed while \<open>wl1\<close> references it (scenario 4 of the specification).\<close>

definition unorderedMessages :: "message list" where
  "unorderedMessages = [Msg_WorkloadEndpointUpdate updateA, Msg_ActivePolicyRemove removePolX]"

text \<open>A manager that caches the policy \<open>polX\<close> and the profile \<open>prof1\<close>, and not \<open>polY\<close>.\<close>

definition managerWithCaches :: bpfEndpointManager where
  "managerWithCaches = exampleManager
     \<lparr>policies := [polX \<mapsto> \<lparr>pol_InboundRules = [Rule ''Allow''], pol_OutboundRules = []\<rparr>],
      profiles := [prof1 \<mapsto> \<lparr>prof_InboundRules = [Rule ''Deny''],
                               prof_OutboundRules = [Rule ''Allow'']\<rparr>]\<rparr>"

text \<open>
  A world in which everything succeeds except \<^verbatim>\<open>tc filter add\<close> on the ingress hook,
  which fails for a reason other than a missing device.
\<close>

definition tcRefused :: world where
  "tcRefused =
     \<lparr>tempDir = Inr ''/tmp/calico-compile1'',
      compileTC = (\<lambda>m rules ap. Inr None),
      tcFilterAdd = (\<lambda>fname ap.
        if Hook ap = TCHookIngress
        then (''RTNETLINK answers: Operation not permitted'', Some ''exit status 2'')
        else ('''', None)),
      repinMaps = None,
      newProgramGenerator = None,
      writeProgram = (\<lambda>rules. None),
      writeProcSys = (\<lambda>path val. None)\<rparr>"

text \<open>The same world, with \<^verbatim>\<open>tc\<close> reporting on both hooks that the device is missing.\<close>

definition tcNoDevice :: world where
  "tcNoDevice = tcRefused
     \<lparr>tcFilterAdd := (\<lambda>fname ap. (''Cannot find device eth0'', Some ''exit status 1''))\<rparr>"

text \<open>The manager after \<open>eth0\<close> was reported up: \<open>eth0\<close> is dirty.\<close>

definition managerEth0Up :: bpfEndpointManager where
  "managerEth0Up = onInterfaceUpdate \<lparr>iu_Name = ''eth0'', iu_State = StateUp\<rparr> exampleManager"

definition eth0Ingress :: TCAttachPoint where
  "eth0Ingress = \<lparr>Section = ''calico_from_host_ep'', Hook = TCHookIngress, Iface = ''eth0'',
                  CompileFlags = 3\<rparr>"

section \<open>Theorems\<close>

lemmas flag_defs =
  CompileFlagHostEp_def CompileFlagIngress_def CompileFlagTunnel_def CompileFlagCgroup_def

text \<open>
  Claim C1. For each of the three endpoint kinds and both to-or-from values the section
  name is \<open>calico_<from-or-to>_<kind>_ep\<close>, and the flags bound to the six sections are
  0, 2, 3, 1, 7 and 5, the flag bits being HOSTEP = 1, INGRESS = 2, TUNNEL = 4 and
  CGROUP = 8.
\<close>

theorem section_flags_table:
  "BPFSectionName EpTypeWorkload FromEp = ''calico_from_workload_ep'' \<and>
   BPFSectionName EpTypeWorkload ToEp = ''calico_to_workload_ep'' \<and>
   BPFSectionName EpTypeHost FromEp = ''calico_from_host_ep'' \<and>
   BPFSectionName EpTypeHost ToEp = ''calico_to_host_ep'' \<and>
   BPFSectionName EpTypeTunnel FromEp = ''calico_from_tunnel_ep'' \<and>
   BPFSectionName EpTypeTunnel ToEp = ''calico_to_tunnel_ep'' \<and>
   BPFSectionToFlags (BPFSectionName EpTypeWorkload FromEp) = Inr 0 \<and>
   BPFSectionToFlags (BPFSectionName EpTypeWorkload ToEp) = Inr 2 \<and>
   BPFSectionToFlags (BPFSectionName EpTypeHost FromEp) = Inr 3 \<and>
   BPFSectionToFlags (BPFSectionName EpTypeHost ToEp) = Inr 1 \<and>
   BPFSectionToFlags (BPFSectionName EpTypeTunnel FromEp) = Inr 7 \<and>
   BPFSectionToFlags (BPFSectionName EpTypeTunnel ToEp) = Inr 5 \<and>
   BPFSectionToFlags (BPFSectionName EpTypeWorkload ToEp) = Inr CompileFlagIngress \<and>
   BPFSectionToFlags (BPFSectionName EpTypeHost FromEp) =
     Inr (CompileFlagHostEp OR CompileFlagIngress) \<and>
   BPFSectionToFlags (BPFSectionName EpTypeHost ToEp) = Inr CompileFlagHostEp \<and>
   BPFSectionToFlags (BPFSectionName EpTypeTunnel FromEp) =
     Inr (CompileFlagHostEp OR CompileFlagIngress OR CompileFlagTunnel) \<and>
   BPFSectionToFlags (BPFSectionName EpTypeTunnel ToEp) =
     Inr (CompileFlagHostEp OR CompileFlagTunnel) \<and>
   CompileFlagHostEp = 1 \<and> CompileFlagIngress = 2 \<and>
   CompileFlagTunnel = 4 \<and> CompileFlagCgroup = 8"
  by (simp add: BPFSectionName_def BPFSectionToFlags_def bpfSectionToFlags_def flag_defs)

text \<open>
  Claim C2. For every interface name the attach-point calculator selects, for a workload,
  the hook opposite to the policy direction, and for a host or a tunnel the hook of the
  policy direction; the section is named with "from" exactly when the hook is the ingress
  hook.
\<close>

theorem attach_point_hook:
  "calculateTCAttachPoint EpTypeWorkload PolDirnIngress ifaceName =
     Inr \<lparr>Section = BPFSectionName EpTypeWorkload ToEp, Hook = TCHookEgress,
          Iface = ifaceName, CompileFlags = 2\<rparr> \<and>
   calculateTCAttachPoint EpTypeWorkload PolDirnEgress ifaceName =
     Inr \<lparr>Section = BPFSectionName EpTypeWorkload FromEp, Hook = TCHookIngress,
          Iface = ifaceName, CompileFlags = 0\<rparr> \<and>
   calculateTCAttachPoint EpTypeHost PolDirnIngress ifaceName =
     Inr \<lparr>Section = BPFSectionName EpTypeHost FromEp, Hook = TCHookIngress,
          Iface = ifaceName, CompileFlags = 3\<rparr> \<and>
   calculateTCAttachPoint EpTypeHost PolDirnEgress ifaceName =
     Inr \<lparr>Section = BPFSectionName EpTypeHost ToEp, Hook = TCHookEgress,
          Iface = ifaceName, CompileFlags = 1\<rparr> \<and>
   calculateTCAttachPoint EpTypeTunnel PolDirnIngress ifaceName =
     Inr \<lparr>Section = BPFSectionName EpTypeTunnel FromEp, Hook = TCHookIngress,
          Iface = ifaceName, CompileFlags = 7\<rparr> \<and>
   calculateTCAttachPoint EpTypeTunnel PolDirnEgress ifaceName =
     Inr \<lparr>Section = BPFSectionName EpTypeTunnel ToEp, Hook = TCHookEgress,
          Iface = ifaceName, CompileFlags = 5\<rparr> \<and>
   (toOrFromFor hook = FromEp) = (hook = TCHookIngress)"
  by (simp add: calculateTCAttachPoint_def hookFor_def toOrFromFor_def BPFSectionName_def
      BPFSectionToFlags_def bpfSectionToFlags_def flag_defs)


subsection \<open>The loops over the reverse indices\<close>

lemmas handler_defs =
  onWorkloadEndpointUpdate_def onWorkloadEnpdointRemove_def onPolicyUpdate_def
  onPolicyRemove_def onProfileUpdate_def onProfileRemove_def
  markPolicyUsersDirty_def markProfileUsersDirty_def
  detachTiers_def detachTier_def detachProfiles_def attachTiers_def attachTier_def
  discardPolicyUser_def discardProfileUser_def addPolicyUser_def addProfileUser_def
  discardUser_def addUser_def newBPFEndpointManager_def Let_def

lemmas example_defs =
  exampleManager_def wl1_def polX_def prof1_def endpointA_def endpointB_def
  updateA_def updateB_def removeWl1_def

lemma discardUser_apply:
  "discardUser w a idx k = (if k = a then map_option (\<lambda>s. s - {w}) (idx k) else idx k)"
  by (simp add: discardUser_def split: option.splits)

lemma addUser_apply:
  "addUser w a idx k = (if k = a then Some (insert w (users idx k)) else idx k)"
  by (simp add: addUser_def users_def split: option.splits)

lemma fold_discardUser:
  "fold (discardUser w) ks idx k =
     (if k \<in> set ks then map_option (\<lambda>s. s - {w}) (idx k) else idx k)"
proof (induction ks arbitrary: idx)
  case Nil
  show ?case by simp
next
  case (Cons a ks)
  have "fold (discardUser w) (a # ks) idx k = fold (discardUser w) ks (discardUser w a idx) k"
    by simp
  also have "\<dots> = (if k \<in> set ks then map_option (\<lambda>s. s - {w}) (discardUser w a idx k)
                    else discardUser w a idx k)"
    by (rule Cons.IH)
  also have "\<dots> = (if k \<in> set (a # ks) then map_option (\<lambda>s. s - {w}) (idx k) else idx k)"
    by (cases "idx k") (auto simp: discardUser_apply)
  finally show ?case .
qed

lemma fold_addUser:
  "fold (addUser w) ks idx k =
     (if k \<in> set ks then Some (insert w (users idx k)) else idx k)"
proof (induction ks arbitrary: idx)
  case Nil
  show ?case by simp
next
  case (Cons a ks)
  have "fold (addUser w) (a # ks) idx k = fold (addUser w) ks (addUser w a idx) k"
    by simp
  also have "\<dots> = (if k \<in> set ks then Some (insert w (users (addUser w a idx) k))
                    else addUser w a idx k)"
    by (rule Cons.IH)
  also have "\<dots> = (if k \<in> set (a # ks) then Some (insert w (users idx k)) else idx k)"
    by (auto simp: addUser_apply users_def)
  finally show ?case .
qed

lemma fold_addUser_idem:
  "fold (addUser w) ks (fold (addUser w) ks idx) = fold (addUser w) ks idx"
  by (rule ext) (simp add: fold_addUser users_def)

lemma add_after_discard:
  assumes "\<And>k. k \<in> set ks \<Longrightarrow> \<exists>s. idx k = Some s \<and> w \<in> s"
  shows "fold (addUser w) ks (fold (discardUser w) ks idx) = idx"
proof (rule ext)
  fix k
  show "fold (addUser w) ks (fold (discardUser w) ks idx) k = idx k"
  proof (cases "k \<in> set ks")
    case True
    then obtain s where "idx k = Some s" "w \<in> s" using assms by blast
    with True show ?thesis by (auto simp: fold_addUser fold_discardUser users_def)
  next
    case False
    then show ?thesis by (simp add: fold_addUser fold_discardUser)
  qed
qed

lemma fold_discardPolicyUser:
  "fold (discardPolicyUser w tn) ps m =
     m\<lparr>policiesToWorkloads :=
         fold (discardUser w) (map (PolicyID tn) ps) (policiesToWorkloads m)\<rparr>"
  by (induction ps arbitrary: m) (simp_all add: discardPolicyUser_def)

lemma fold_addPolicyUser:
  "fold (addPolicyUser w tn) ps m =
     m\<lparr>policiesToWorkloads :=
         fold (addUser w) (map (PolicyID tn) ps) (policiesToWorkloads m)\<rparr>"
  by (induction ps arbitrary: m) (simp_all add: addPolicyUser_def)

lemma fold_discardProfileUser:
  "fold (discardProfileUser w) ps m =
     m\<lparr>profilesToWorkloads :=
         fold (discardUser w) (map ProfileID ps) (profilesToWorkloads m)\<rparr>"
  by (induction ps arbitrary: m) (simp_all add: discardProfileUser_def)

lemma fold_addProfileUser:
  "fold (addProfileUser w) ps m =
     m\<lparr>profilesToWorkloads :=
         fold (addUser w) (map ProfileID ps) (profilesToWorkloads m)\<rparr>"
  by (induction ps arbitrary: m) (simp_all add: addProfileUser_def)

lemma detachTier_eq:
  "detachTier w t m =
     m\<lparr>policiesToWorkloads := fold (discardUser w) (tierEdges t) (policiesToWorkloads m)\<rparr>"
  by (simp add: detachTier_def tierEdges_def fold_discardPolicyUser)

lemma detachTiers_eq:
  "detachTiers w wl m =
     m\<lparr>policiesToWorkloads := fold (discardUser w) (policyEdges wl) (policiesToWorkloads m)\<rparr>"
proof -
  have "fold (detachTier w) ts m =
          m\<lparr>policiesToWorkloads :=
              fold (discardUser w) (concat (map tierEdges ts)) (policiesToWorkloads m)\<rparr>" for ts
    by (induction ts arbitrary: m) (simp_all add: detachTier_eq)
  then show ?thesis by (simp add: detachTiers_def policyEdges_def)
qed

lemma detachProfiles_eq:
  "detachProfiles w wl m =
     m\<lparr>profilesToWorkloads := fold (discardUser w) (profileEdges wl) (profilesToWorkloads m)\<rparr>"
  by (simp add: detachProfiles_def profileEdges_def fold_discardProfileUser)

lemma attachTier_eq:
  "attachTier w wl t m =
     m\<lparr>policiesToWorkloads := fold (addUser w) (tierEdges t) (policiesToWorkloads m),
       profilesToWorkloads := fold (addUser w) (profileEdges wl) (profilesToWorkloads m)\<rparr>"
  by (simp add: attachTier_def tierEdges_def profileEdges_def fold_addPolicyUser
      fold_addProfileUser)

text \<open>
  The profile loop sits inside the tier loop: an endpoint without tiers leaves the profile
  index as it was.
\<close>

lemma attachTiers_eq:
  "attachTiers w wl m =
     m\<lparr>policiesToWorkloads := fold (addUser w) (policyEdges wl) (policiesToWorkloads m),
       profilesToWorkloads :=
         (if Tiers wl = [] then profilesToWorkloads m
          else fold (addUser w) (profileEdges wl) (profilesToWorkloads m))\<rparr>"
proof -
  have "fold (attachTier w wl) ts m =
          m\<lparr>policiesToWorkloads :=
              fold (addUser w) (concat (map tierEdges ts)) (policiesToWorkloads m),
            profilesToWorkloads :=
              (if ts = [] then profilesToWorkloads m
               else fold (addUser w) (profileEdges wl) (profilesToWorkloads m))\<rparr>" for ts
    by (induction ts arbitrary: m) (simp_all add: attachTier_eq fold_addUser_idem)
  then show ?thesis by (simp add: attachTiers_def policyEdges_def)
qed

subsection \<open>The workload-endpoint handlers in closed form\<close>

lemma onWorkloadEndpointUpdate_Inr:
  assumes "weu_Id msg = Some w" and "weu_Endpoint msg = Some wl"
  shows "onWorkloadEndpointUpdate msg m =
     Inr (m\<lparr>wlEps := (wlEps m)(w \<mapsto> wl),
            policiesToWorkloads :=
              fold (addUser w) (policyEdges wl)
                (case wlEps m w of None \<Rightarrow> policiesToWorkloads m
                 | Some oldWL \<Rightarrow> fold (discardUser w) (policyEdges oldWL) (policiesToWorkloads m)),
            profilesToWorkloads :=
              (if Tiers wl = [] then id else fold (addUser w) (profileEdges wl))
                (case wlEps m w of None \<Rightarrow> profilesToWorkloads m
                 | Some oldWL \<Rightarrow>
                     fold (discardUser w) (profileEdges oldWL) (profilesToWorkloads m)),
            dirtyWorkloads := insert w (dirtyWorkloads m)\<rparr>)"
  using assms
  by (cases "wlEps m w")
     (simp_all add: onWorkloadEndpointUpdate_def attachTiers_eq detachTiers_eq detachProfiles_eq
       Let_def)

lemma onWorkloadEndpointUpdate_InrD:
  "onWorkloadEndpointUpdate msg m = Inr m' \<Longrightarrow>
     \<exists>w wl. weu_Id msg = Some w \<and> weu_Endpoint msg = Some wl"
  by (auto simp: onWorkloadEndpointUpdate_def Let_def split: option.splits)

lemma onWorkloadEnpdointRemove_Inr:
  assumes "wer_Id msg = Some w" and "wlEps m w = Some wl"
  shows "onWorkloadEnpdointRemove msg m =
     Inr (m\<lparr>wlEps := (wlEps m)(w := None),
            policiesToWorkloads := fold (discardUser w) (policyEdges wl) (policiesToWorkloads m),
            dirtyWorkloads := insert w (dirtyWorkloads m)\<rparr>)"
  using assms by (simp add: onWorkloadEnpdointRemove_def detachTiers_eq Let_def)

subsection \<open>Remove and update\<close>

text \<open>
  Claim C4, evaluated where it fails. The endpoint \<open>wl1\<close> is cached with one policy edge
  and one profile edge. Its removal takes \<open>wl1\<close> out of the set of the policy edge, erases
  it from the cache and marks it dirty, and leaves it in the set of the profile edge: the
  remove handler has no loop over the profile ids, which the detach step of the update
  has.
\<close>

theorem remove_keeps_profile_edge:
  "\<exists>s1 s2.
     onWorkloadEndpointUpdate updateA exampleManager = Inr s1 \<and>
     wlEps s1 wl1 = Some endpointA \<and>
     policiesToWorkloads s1 polX = Some {wl1} \<and>
     profilesToWorkloads s1 prof1 = Some {wl1} \<and>
     onWorkloadEnpdointRemove removeWl1 s1 = Inr s2 \<and>
     wlEps s2 wl1 = None \<and>
     wl1 \<in> dirtyWorkloads s2 \<and>
     policiesToWorkloads s2 polX = Some {} \<and>
     profilesToWorkloads s2 prof1 = Some {wl1}"
  by (simp add: handler_defs example_defs)

text \<open>
  Claim C5, evaluated where it fails. After \<open>wl1\<close> was added with a profile and removed,
  the profile index still holds it. The update \<open>updateB\<close>, whose endpoint has no tier and
  the same profile, applied once leaves \<open>wl1\<close> in the profile's set; applied a second time
  it discards \<open>wl1\<close> from that set and, the profile loop being inside the loop over the
  tiers, does not add it again.
\<close>

theorem update_twice_differs:
  "\<exists>s1 s2 s3 s4.
     onWorkloadEndpointUpdate updateA exampleManager = Inr s1 \<and>
     onWorkloadEnpdointRemove removeWl1 s1 = Inr s2 \<and>
     onWorkloadEndpointUpdate updateB s2 = Inr s3 \<and>
     onWorkloadEndpointUpdate updateB s3 = Inr s4 \<and>
     profilesToWorkloads s3 prof1 = Some {wl1} \<and>
     profilesToWorkloads s4 prof1 = Some {} \<and>
     s4 \<noteq> s3"
proof -
  have "\<exists>s1 s2 s3 s4.
     onWorkloadEndpointUpdate updateA exampleManager = Inr s1 \<and>
     onWorkloadEnpdointRemove removeWl1 s1 = Inr s2 \<and>
     onWorkloadEndpointUpdate updateB s2 = Inr s3 \<and>
     onWorkloadEndpointUpdate updateB s3 = Inr s4 \<and>
     profilesToWorkloads s3 prof1 = Some {wl1} \<and>
     profilesToWorkloads s4 prof1 = Some {}"
    by (simp add: handler_defs example_defs)
  then obtain s1 s2 s3 s4 where
    h: "onWorkloadEndpointUpdate updateA exampleManager = Inr s1"
       "onWorkloadEnpdointRemove removeWl1 s1 = Inr s2"
       "onWorkloadEndpointUpdate updateB s2 = Inr s3"
       "onWorkloadEndpointUpdate updateB s3 = Inr s4"
    and p: "profilesToWorkloads s3 prof1 = Some {wl1}" "profilesToWorkloads s4 prof1 = Some {}"
    by blast
  from p have "s4 \<noteq> s3" by auto
  with h p show ?thesis by blast
qed

text \<open>
  What does hold of a repeated update: the endpoint cache, the policy index and the dirty
  set are those of a single update, and so is the whole state when the endpoint has a tier.
\<close>

lemma update_twice:
  assumes "onWorkloadEndpointUpdate u s0 = Inr s1" and "weu_Endpoint u = Some wl"
  shows "\<exists>s2. onWorkloadEndpointUpdate u s1 = Inr s2 \<and>
              wlEps s2 = wlEps s1 \<and>
              policiesToWorkloads s2 = policiesToWorkloads s1 \<and>
              dirtyWorkloads s2 = dirtyWorkloads s1 \<and>
              (Tiers wl \<noteq> [] \<longrightarrow> s2 = s1)"
proof -
  from assms obtain w where u: "weu_Id u = Some w" "weu_Endpoint u = Some wl"
    using onWorkloadEndpointUpdate_InrD by fastforce
  define P1 where "P1 = (case wlEps s0 w of None \<Rightarrow> policiesToWorkloads s0
      | Some oldWL \<Rightarrow> fold (discardUser w) (policyEdges oldWL) (policiesToWorkloads s0))"
  define F1 where "F1 = (case wlEps s0 w of None \<Rightarrow> profilesToWorkloads s0
      | Some oldWL \<Rightarrow> fold (discardUser w) (profileEdges oldWL) (profilesToWorkloads s0))"
  have "onWorkloadEndpointUpdate u s0 = Inr (s0\<lparr>wlEps := (wlEps s0)(w \<mapsto> wl),
            policiesToWorkloads := fold (addUser w) (policyEdges wl) P1,
            profilesToWorkloads :=
              (if Tiers wl = [] then id else fold (addUser w) (profileEdges wl)) F1,
            dirtyWorkloads := insert w (dirtyWorkloads s0)\<rparr>)"
    unfolding P1_def F1_def by (rule onWorkloadEndpointUpdate_Inr [OF u])
  with assms have s1: "s1 = s0\<lparr>wlEps := (wlEps s0)(w \<mapsto> wl),
            policiesToWorkloads := fold (addUser w) (policyEdges wl) P1,
            profilesToWorkloads :=
              (if Tiers wl = [] then id else fold (addUser w) (profileEdges wl)) F1,
            dirtyWorkloads := insert w (dirtyWorkloads s0)\<rparr>"
    by simp
  have cached: "wlEps s1 w = Some wl" by (simp add: s1)
  define s2 where "s2 = s1\<lparr>wlEps := (wlEps s1)(w \<mapsto> wl),
            policiesToWorkloads :=
              fold (addUser w) (policyEdges wl)
                (fold (discardUser w) (policyEdges wl) (policiesToWorkloads s1)),
            profilesToWorkloads :=
              (if Tiers wl = [] then id else fold (addUser w) (profileEdges wl))
                (fold (discardUser w) (profileEdges wl) (profilesToWorkloads s1)),
            dirtyWorkloads := insert w (dirtyWorkloads s1)\<rparr>"
  have r: "onWorkloadEndpointUpdate u s1 = Inr s2"
    using onWorkloadEndpointUpdate_Inr [OF u, of s1] cached by (simp add: s2_def)
  have pol: "fold (addUser w) (policyEdges wl)
               (fold (discardUser w) (policyEdges wl) (policiesToWorkloads s1)) =
             policiesToWorkloads s1"
    by (rule add_after_discard) (simp add: s1 fold_addUser)
  have prof: "fold (addUser w) (profileEdges wl)
                (fold (discardUser w) (profileEdges wl) (profilesToWorkloads s1)) =
              profilesToWorkloads s1" if "Tiers wl \<noteq> []"
    by (rule add_after_discard) (use that in \<open>simp add: s1 fold_addUser\<close>)
  have eps: "(wlEps s1)(w \<mapsto> wl) = wlEps s1"
    using cached by (simp add: fun_upd_idem)
  have dirty: "insert w (dirtyWorkloads s1) = dirtyWorkloads s1"
    by (simp add: s1)
  have "wlEps s2 = wlEps s1" "policiesToWorkloads s2 = policiesToWorkloads s1"
    "dirtyWorkloads s2 = dirtyWorkloads s1"
    by (simp_all add: s2_def eps pol dirty)
  moreover have "s2 = s1" if "Tiers wl \<noteq> []"
    using that prof eps pol dirty by (simp add: s2_def)
  ultimately show ?thesis using r by blast
qed

text \<open>
  Claim C6. From the state \<open>s1\<close> reached by a workload-endpoint update \<open>u\<close>, the matching
  remove succeeds, and \<open>u\<close> applied after it gives \<open>s1\<close> again: the endpoint cache, both
  reverse indices and the dirty set.
\<close>

theorem remove_then_update_restores:
  assumes "onWorkloadEndpointUpdate u s0 = Inr s1"
  shows "\<exists>s2. onWorkloadEnpdointRemove \<lparr>wer_Id = weu_Id u\<rparr> s1 = Inr s2 \<and>
              onWorkloadEndpointUpdate u s2 = Inr s1"
proof -
  from assms obtain w wl where u: "weu_Id u = Some w" "weu_Endpoint u = Some wl"
    using onWorkloadEndpointUpdate_InrD by blast
  define P1 where "P1 = (case wlEps s0 w of None \<Rightarrow> policiesToWorkloads s0
      | Some oldWL \<Rightarrow> fold (discardUser w) (policyEdges oldWL) (policiesToWorkloads s0))"
  define F1 where "F1 = (case wlEps s0 w of None \<Rightarrow> profilesToWorkloads s0
      | Some oldWL \<Rightarrow> fold (discardUser w) (profileEdges oldWL) (profilesToWorkloads s0))"
  have "onWorkloadEndpointUpdate u s0 = Inr (s0\<lparr>wlEps := (wlEps s0)(w \<mapsto> wl),
            policiesToWorkloads := fold (addUser w) (policyEdges wl) P1,
            profilesToWorkloads :=
              (if Tiers wl = [] then id else fold (addUser w) (profileEdges wl)) F1,
            dirtyWorkloads := insert w (dirtyWorkloads s0)\<rparr>)"
    unfolding P1_def F1_def by (rule onWorkloadEndpointUpdate_Inr [OF u])
  with assms have s1: "s1 = s0\<lparr>wlEps := (wlEps s0)(w \<mapsto> wl),
            policiesToWorkloads := fold (addUser w) (policyEdges wl) P1,
            profilesToWorkloads :=
              (if Tiers wl = [] then id else fold (addUser w) (profileEdges wl)) F1,
            dirtyWorkloads := insert w (dirtyWorkloads s0)\<rparr>"
    by simp
  have cached: "wlEps s1 w = Some wl" by (simp add: s1)
  define s2 where "s2 = s1\<lparr>wlEps := (wlEps s1)(w := None),
            policiesToWorkloads := fold (discardUser w) (policyEdges wl) (policiesToWorkloads s1),
            dirtyWorkloads := insert w (dirtyWorkloads s1)\<rparr>"
  have rm: "onWorkloadEnpdointRemove \<lparr>wer_Id = weu_Id u\<rparr> s1 = Inr s2"
    using onWorkloadEnpdointRemove_Inr [of "\<lparr>wer_Id = weu_Id u\<rparr>" w s1 wl] cached u
    by (simp add: s2_def)
  have pol: "fold (addUser w) (policyEdges wl)
               (fold (discardUser w) (policyEdges wl) (policiesToWorkloads s1)) =
             policiesToWorkloads s1"
    by (rule add_after_discard) (simp add: s1 fold_addUser)
  have prof: "(if Tiers wl = [] then id else fold (addUser w) (profileEdges wl))
                (profilesToWorkloads s1) = profilesToWorkloads s1"
    by (simp add: s1 fold_addUser_idem)
  have eps: "(wlEps s1)(w \<mapsto> wl) = wlEps s1"
    using cached by (simp add: fun_upd_idem)
  have dirty: "insert w (dirtyWorkloads s1) = dirtyWorkloads s1"
    by (simp add: s1)
  have "onWorkloadEndpointUpdate u s2 = Inr s1"
    using onWorkloadEndpointUpdate_Inr [OF u, of s2] pol prof eps dirty
    by (simp add: s2_def)
  with rm show ?thesis by blast
qed

theorem remove_then_update_restores_witness:
  "\<exists>s1. onWorkloadEndpointUpdate updateA exampleManager = Inr s1 \<and>
        wlEps s1 wl1 = Some endpointA \<and>
        (\<exists>s2. onWorkloadEnpdointRemove \<lparr>wer_Id = weu_Id updateA\<rparr> s1 = Inr s2 \<and>
              onWorkloadEndpointUpdate updateA s2 = Inr s1)"
proof -
  obtain s1 where h: "onWorkloadEndpointUpdate updateA exampleManager = Inr s1"
    and c: "wlEps s1 wl1 = Some endpointA"
    by (simp add: handler_defs example_defs)
  from remove_then_update_restores [OF h] h c show ?thesis by blast
qed

text \<open>
  Claim C10. The remove handler returns only for an id that has a cached endpoint. For an
  id that is absent from the endpoint cache it panics with a nil pointer dereference, in
  every state, and changes nothing.
\<close>

theorem remove_unknown_panics:
  assumes "wer_Id msg = Some wlID"
  shows "(wlEps m wlID = None \<longrightarrow>
            onWorkloadEnpdointRemove msg m = Inl NilPointerDereference) \<and>
         ((\<exists>m'. onWorkloadEnpdointRemove msg m = Inr m') = (wlEps m wlID \<noteq> None))"
  using assms by (auto simp: onWorkloadEnpdointRemove_def Let_def split: option.splits)

theorem remove_unknown_panics_witness:
  "wer_Id removeWl1 = Some wl1 \<and> wlEps exampleManager wl1 = None \<and>
   onWorkloadEnpdointRemove removeWl1 exampleManager = Inl NilPointerDereference \<and>
   \<not> (\<exists>m'. onWorkloadEnpdointRemove removeWl1 exampleManager = Inr m')"
proof -
  have i: "wer_Id removeWl1 = Some wl1" by (simp add: removeWl1_def)
  have c: "wlEps exampleManager wl1 = None"
    by (simp add: exampleManager_def newBPFEndpointManager_def)
  from remove_unknown_panics [OF i, of exampleManager] i c show ?thesis by simp
qed

subsection \<open>The policy index after a sequence of messages\<close>

lemma users_fold_addUser:
  "users (fold (addUser w) ks idx) k =
     (if k \<in> set ks then insert w (users idx k) else users idx k)"
  by (simp add: users_def fold_addUser)

lemma users_fold_discardUser:
  "users (fold (discardUser w) ks idx) k =
     (if k \<in> set ks then users idx k - {w} else users idx k)"
  by (cases "idx k") (simp_all add: users_def fold_discardUser)

lemma update_users:
  assumes "onWorkloadEndpointUpdate msg m = Inr m'"
  shows "\<exists>w wl. weu_Id msg = Some w \<and> weu_Endpoint msg = Some wl \<and>
     wlEps m' = (wlEps m)(w \<mapsto> wl) \<and>
     (\<forall>p. users (policiesToWorkloads m') p =
        (if p \<in> set (policyEdges wl) then {w} else {}) \<union>
        (case wlEps m w of None \<Rightarrow> users (policiesToWorkloads m) p
         | Some old \<Rightarrow> if p \<in> set (policyEdges old)
                       then users (policiesToWorkloads m) p - {w}
                       else users (policiesToWorkloads m) p))"
proof -
  from assms obtain w wl where u: "weu_Id msg = Some w" "weu_Endpoint msg = Some wl"
    using onWorkloadEndpointUpdate_InrD by blast
  from assms onWorkloadEndpointUpdate_Inr [OF u, of m]
  have "wlEps m' = (wlEps m)(w \<mapsto> wl)" and
    "policiesToWorkloads m' = fold (addUser w) (policyEdges wl)
                (case wlEps m w of None \<Rightarrow> policiesToWorkloads m
                 | Some oldWL \<Rightarrow> fold (discardUser w) (policyEdges oldWL) (policiesToWorkloads m))"
    by auto
  with u show ?thesis
    by (cases "wlEps m w") (auto simp: users_fold_addUser users_fold_discardUser)
qed

lemma referrers_update:
  "wlEps m' = (wlEps m)(w \<mapsto> wl) \<Longrightarrow>
   policyReferrers m' p =
     (if p \<in> set (policyEdges wl) then {w} else {}) \<union> (policyReferrers m p - {w})"
  by (auto simp: policyReferrers_def)

lemma referrers_cached:
  "w \<in> policyReferrers m p = (\<exists>wl. wlEps m w = Some wl \<and> p \<in> set (policyEdges wl))"
  by (simp add: policyReferrers_def)

lemma update_sound:
  assumes "onWorkloadEndpointUpdate msg m = Inr m'" and "indexSound m"
  shows "indexSound m'"
proof -
  from update_users [OF assms(1)] obtain w wl where
    e: "wlEps m' = (wlEps m)(w \<mapsto> wl)" and
    us: "\<And>p. users (policiesToWorkloads m') p =
        (if p \<in> set (policyEdges wl) then {w} else {}) \<union>
        (case wlEps m w of None \<Rightarrow> users (policiesToWorkloads m) p
         | Some old \<Rightarrow> if p \<in> set (policyEdges old)
                       then users (policiesToWorkloads m) p - {w}
                       else users (policiesToWorkloads m) p)"
    by blast
  show ?thesis
    unfolding indexSound_def
  proof
    fix p
    from assms(2) have s: "users (policiesToWorkloads m) p \<subseteq> policyReferrers m p"
      by (simp add: indexSound_def)
    have "(case wlEps m w of None \<Rightarrow> users (policiesToWorkloads m) p
         | Some old \<Rightarrow> if p \<in> set (policyEdges old)
                       then users (policiesToWorkloads m) p - {w}
                       else users (policiesToWorkloads m) p) \<subseteq> policyReferrers m p - {w}"
      using s by (cases "wlEps m w") (auto simp: referrers_cached)
    then show "users (policiesToWorkloads m') p \<subseteq> policyReferrers m' p"
      unfolding us referrers_update [OF e] by blast
  qed
qed

lemma update_exact:
  assumes "onWorkloadEndpointUpdate msg m = Inr m'" and "indexExact m"
  shows "indexExact m'"
proof -
  from update_users [OF assms(1)] obtain w wl where
    e: "wlEps m' = (wlEps m)(w \<mapsto> wl)" and
    us: "\<And>p. users (policiesToWorkloads m') p =
        (if p \<in> set (policyEdges wl) then {w} else {}) \<union>
        (case wlEps m w of None \<Rightarrow> users (policiesToWorkloads m) p
         | Some old \<Rightarrow> if p \<in> set (policyEdges old)
                       then users (policiesToWorkloads m) p - {w}
                       else users (policiesToWorkloads m) p)"
    by blast
  show ?thesis
    unfolding indexExact_def
  proof
    fix p
    from assms(2) have s: "users (policiesToWorkloads m) p = policyReferrers m p"
      by (simp add: indexExact_def)
    have "(case wlEps m w of None \<Rightarrow> users (policiesToWorkloads m) p
         | Some old \<Rightarrow> if p \<in> set (policyEdges old)
                       then users (policiesToWorkloads m) p - {w}
                       else users (policiesToWorkloads m) p) = policyReferrers m p - {w}"
      unfolding s by (cases "wlEps m w") (auto simp: referrers_cached)
    then show "users (policiesToWorkloads m') p = policyReferrers m' p"
      unfolding us referrers_update [OF e] by simp
  qed
qed

lemma remove_users:
  assumes "onWorkloadEnpdointRemove msg m = Inr m'"
  shows "\<exists>w wl. wlEps m w = Some wl \<and> wlEps m' = (wlEps m)(w := None) \<and>
     (\<forall>p. users (policiesToWorkloads m') p =
        (if p \<in> set (policyEdges wl) then users (policiesToWorkloads m) p - {w}
         else users (policiesToWorkloads m) p))"
proof -
  from assms obtain w wl where u: "wer_Id msg = Some w" "wlEps m w = Some wl"
    by (auto simp: onWorkloadEnpdointRemove_def split: option.splits)
  from assms onWorkloadEnpdointRemove_Inr [OF u]
  have "wlEps m' = (wlEps m)(w := None)" and
    "policiesToWorkloads m' = fold (discardUser w) (policyEdges wl) (policiesToWorkloads m)"
    by auto
  with u show ?thesis by (auto simp: users_fold_discardUser)
qed

lemma referrers_remove:
  "wlEps m' = (wlEps m)(w := None) \<Longrightarrow> policyReferrers m' p = policyReferrers m p - {w}"
  by (auto simp: policyReferrers_def)

lemma remove_sound:
  assumes "onWorkloadEnpdointRemove msg m = Inr m'" and "indexSound m"
  shows "indexSound m'"
proof -
  from remove_users [OF assms(1)] obtain w wl where
    c: "wlEps m w = Some wl" and e: "wlEps m' = (wlEps m)(w := None)" and
    us: "\<And>p. users (policiesToWorkloads m') p =
        (if p \<in> set (policyEdges wl) then users (policiesToWorkloads m) p - {w}
         else users (policiesToWorkloads m) p)"
    by blast
  show ?thesis
    unfolding indexSound_def
  proof
    fix p
    from assms(2) have s: "users (policiesToWorkloads m) p \<subseteq> policyReferrers m p"
      by (simp add: indexSound_def)
    show "users (policiesToWorkloads m') p \<subseteq> policyReferrers m' p"
      unfolding us referrers_remove [OF e] using s c by (auto simp: referrers_cached)
  qed
qed

lemma remove_exact:
  assumes "onWorkloadEnpdointRemove msg m = Inr m'" and "indexExact m"
  shows "indexExact m'"
proof -
  from remove_users [OF assms(1)] obtain w wl where
    c: "wlEps m w = Some wl" and e: "wlEps m' = (wlEps m)(w := None)" and
    us: "\<And>p. users (policiesToWorkloads m') p =
        (if p \<in> set (policyEdges wl) then users (policiesToWorkloads m) p - {w}
         else users (policiesToWorkloads m) p)"
    by blast
  show ?thesis
    unfolding indexExact_def
  proof
    fix p
    from assms(2) have s: "users (policiesToWorkloads m) p = policyReferrers m p"
      by (simp add: indexExact_def)
    show "users (policiesToWorkloads m') p = policyReferrers m' p"
      unfolding us referrers_remove [OF e] s using c by (auto simp: referrers_cached)
  qed
qed

lemma referrers_cong: "wlEps m' = wlEps m \<Longrightarrow> policyReferrers m' = policyReferrers m"
  by (rule ext) (simp add: policyReferrers_def)

lemma sound_cong:
  "wlEps m' = wlEps m \<Longrightarrow> policiesToWorkloads m' = policiesToWorkloads m \<Longrightarrow>
   indexSound m \<Longrightarrow> indexSound m'"
  using referrers_cong [of m' m] by (simp add: indexSound_def)

lemma exact_cong:
  "wlEps m' = wlEps m \<Longrightarrow> policiesToWorkloads m' = policiesToWorkloads m \<Longrightarrow>
   indexExact m \<Longrightarrow> indexExact m'"
  using referrers_cong [of m' m] by (simp add: indexExact_def)

lemma markPolicyUsersDirty_unchanged:
  "wlEps (markPolicyUsersDirty polID m) = wlEps m"
  "policiesToWorkloads (markPolicyUsersDirty polID m) = policiesToWorkloads m"
  by (simp_all add: markPolicyUsersDirty_def split: option.splits)

lemma markProfileUsersDirty_unchanged:
  "wlEps (markProfileUsersDirty profID m) = wlEps m"
  "policiesToWorkloads (markProfileUsersDirty profID m) = policiesToWorkloads m"
  by (simp_all add: markProfileUsersDirty_def split: option.splits)

lemma onInterfaceUpdate_unchanged:
  "wlEps (onInterfaceUpdate u m) = wlEps m"
  "policiesToWorkloads (onInterfaceUpdate u m) = policiesToWorkloads m"
  by (simp_all add: onInterfaceUpdate_def Let_def)

lemma onInterfaceAddrsUpdate_unchanged:
  "wlEps (onInterfaceAddrsUpdate f a m) = wlEps m"
  "policiesToWorkloads (onInterfaceAddrsUpdate f a m) = policiesToWorkloads m"
  by (simp_all add: onInterfaceAddrsUpdate_def Let_def split: option.splits)

lemma onPolicyUpdate_unchanged:
  assumes "onPolicyUpdate x m = Inr m'"
  shows "wlEps m' = wlEps m \<and> policiesToWorkloads m' = policiesToWorkloads m"
proof (cases "apu_Id x")
  case None
  with assms show ?thesis by (simp add: onPolicyUpdate_def)
next
  case (Some polID)
  with assms have "m' = markPolicyUsersDirty polID (m\<lparr>policies := (policies m)(polID := apu_Policy x)\<rparr>)"
    by (simp add: onPolicyUpdate_def)
  then show ?thesis by (simp add: markPolicyUsersDirty_unchanged)
qed

lemma onProfileUpdate_unchanged:
  assumes "onProfileUpdate x m = Inr m'"
  shows "wlEps m' = wlEps m \<and> policiesToWorkloads m' = policiesToWorkloads m"
proof (cases "afu_Id x")
  case None
  with assms show ?thesis by (simp add: onProfileUpdate_def)
next
  case (Some profID)
  with assms have "m' = markProfileUsersDirty profID (m\<lparr>profiles := (profiles m)(profID := afu_Profile x)\<rparr>)"
    by (simp add: onProfileUpdate_def)
  then show ?thesis by (simp add: markProfileUsersDirty_unchanged)
qed

lemma onProfileRemove_unchanged:
  assumes "onProfileRemove x m = Inr m'"
  shows "wlEps m' = wlEps m \<and> policiesToWorkloads m' = policiesToWorkloads m"
proof (cases "afr_Id x")
  case None
  with assms show ?thesis by (simp add: onProfileRemove_def)
next
  case (Some profID)
  with assms have "m' = (markProfileUsersDirty profID m)
      \<lparr>profiles := (profiles (markProfileUsersDirty profID m))(profID := None),
        profilesToWorkloads := (profilesToWorkloads (markProfileUsersDirty profID m))(profID := None)\<rparr>"
    by (simp add: onProfileRemove_def Let_def)
  then show ?thesis by (simp add: markProfileUsersDirty_unchanged)
qed

lemma onPolicyRemove_effect:
  assumes "onPolicyRemove x m = Inr m'"
  shows "\<exists>polID. apr_Id x = Some polID \<and> wlEps m' = wlEps m \<and>
           policiesToWorkloads m' = (policiesToWorkloads m)(polID := None)"
proof (cases "apr_Id x")
  case None
  with assms show ?thesis by (simp add: onPolicyRemove_def)
next
  case (Some polID)
  with assms have "m' = (markPolicyUsersDirty polID m)
      \<lparr>policies := (policies (markPolicyUsersDirty polID m))(polID := None),
        policiesToWorkloads := (policiesToWorkloads (markPolicyUsersDirty polID m))(polID := None)\<rparr>"
    by (simp add: onPolicyRemove_def Let_def)
  with Some show ?thesis by (simp add: markPolicyUsersDirty_unchanged)
qed

lemma users_delete: "users (idx(k := None)) p = (if p = k then {} else users idx p)"
  by (simp add: users_def)

lemma policyRemove_sound:
  assumes "onPolicyRemove x m = Inr m'" and "indexSound m"
  shows "indexSound m'"
proof -
  from onPolicyRemove_effect [OF assms(1)] obtain polID where
    e: "wlEps m' = wlEps m" "policiesToWorkloads m' = (policiesToWorkloads m)(polID := None)"
    by blast
  from assms(2) show ?thesis
    by (simp add: indexSound_def e users_delete referrers_cong [OF e(1)])
qed

lemma policyRemove_exact:
  assumes "onPolicyRemove x m = Inr m'" and "indexExact m"
    and "policyRemovable (Msg_ActivePolicyRemove x) m"
  shows "indexExact m'"
proof -
  from onPolicyRemove_effect [OF assms(1)] obtain polID where i: "apr_Id x = Some polID" and
    e: "wlEps m' = wlEps m" "policiesToWorkloads m' = (policiesToWorkloads m)(polID := None)"
    by blast
  from assms(3) i have "policyReferrers m polID = {}" by (simp add: policyRemovable_def)
  with assms(2) show ?thesis
    by (simp add: indexExact_def e users_delete referrers_cong [OF e(1)])
qed

lemma step_sound:
  assumes "OnUpdate parseIP4 msg m = Inr m'" and "indexSound m"
  shows "indexSound m'"
proof (cases msg)
  case (Msg_ifaceUpdate x)
  with assms have "m' = onInterfaceUpdate x m" by simp
  with assms(2) show ?thesis by (simp add: sound_cong onInterfaceUpdate_unchanged)
next
  case (Msg_ifaceAddrsUpdate x)
  with assms have "m' = onInterfaceAddrsUpdate parseIP4 x m" by simp
  with assms(2) show ?thesis by (simp add: sound_cong onInterfaceAddrsUpdate_unchanged)
next
  case (Msg_WorkloadEndpointUpdate x)
  with assms show ?thesis by (simp add: update_sound)
next
  case (Msg_WorkloadEndpointRemove x)
  with assms show ?thesis by (simp add: remove_sound)
next
  case (Msg_ActivePolicyUpdate x)
  with assms have "onPolicyUpdate x m = Inr m'" by simp
  from onPolicyUpdate_unchanged [OF this] assms(2) show ?thesis by (simp add: sound_cong)
next
  case (Msg_ActivePolicyRemove x)
  with assms show ?thesis by (simp add: policyRemove_sound)
next
  case (Msg_ActiveProfileUpdate x)
  with assms have "onProfileUpdate x m = Inr m'" by simp
  from onProfileUpdate_unchanged [OF this] assms(2) show ?thesis by (simp add: sound_cong)
next
  case (Msg_ActiveProfileRemove x)
  with assms have "onProfileRemove x m = Inr m'" by simp
  from onProfileRemove_unchanged [OF this] assms(2) show ?thesis by (simp add: sound_cong)
next
  case Msg_other
  with assms show ?thesis by simp
qed

lemma step_exact:
  assumes "OnUpdate parseIP4 msg m = Inr m'" and "indexExact m" and "policyRemovable msg m"
  shows "indexExact m'"
proof (cases msg)
  case (Msg_ifaceUpdate x)
  with assms have "m' = onInterfaceUpdate x m" by simp
  with assms(2) show ?thesis by (simp add: exact_cong onInterfaceUpdate_unchanged)
next
  case (Msg_ifaceAddrsUpdate x)
  with assms have "m' = onInterfaceAddrsUpdate parseIP4 x m" by simp
  with assms(2) show ?thesis by (simp add: exact_cong onInterfaceAddrsUpdate_unchanged)
next
  case (Msg_WorkloadEndpointUpdate x)
  with assms show ?thesis by (simp add: update_exact)
next
  case (Msg_WorkloadEndpointRemove x)
  with assms show ?thesis by (simp add: remove_exact)
next
  case (Msg_ActivePolicyUpdate x)
  with assms have "onPolicyUpdate x m = Inr m'" by simp
  from onPolicyUpdate_unchanged [OF this] assms(2) show ?thesis by (simp add: exact_cong)
next
  case (Msg_ActivePolicyRemove x)
  with assms show ?thesis by (simp add: policyRemove_exact)
next
  case (Msg_ActiveProfileUpdate x)
  with assms have "onProfileUpdate x m = Inr m'" by simp
  from onProfileUpdate_unchanged [OF this] assms(2) show ?thesis by (simp add: exact_cong)
next
  case (Msg_ActiveProfileRemove x)
  with assms have "onProfileRemove x m = Inr m'" by simp
  from onProfileRemove_unchanged [OF this] assms(2) show ?thesis by (simp add: exact_cong)
next
  case Msg_other
  with assms show ?thesis by simp
qed

lemma run_sound:
  "OnUpdates parseIP4 msgs m = Inr m' \<Longrightarrow> indexSound m \<Longrightarrow> indexSound m'"
proof (induction msgs arbitrary: m)
  case Nil
  then show ?case by simp
next
  case (Cons msg msgs)
  from Cons.prems(1) obtain m1 where s: "OnUpdate parseIP4 msg m = Inr m1"
    and r: "OnUpdates parseIP4 msgs m1 = Inr m'"
    by (cases "OnUpdate parseIP4 msg m") simp_all
  from Cons.IH [OF r step_sound [OF s Cons.prems(2)]] show ?case .
qed

lemma run_exact:
  "OnUpdates parseIP4 msgs m = Inr m' \<Longrightarrow> indexExact m \<Longrightarrow>
   calcGraphOrdered parseIP4 msgs m \<Longrightarrow> indexExact m'"
proof (induction msgs arbitrary: m)
  case Nil
  then show ?case by simp
next
  case (Cons msg msgs)
  from Cons.prems(1) obtain m1 where s: "OnUpdate parseIP4 msg m = Inr m1"
    and r: "OnUpdates parseIP4 msgs m1 = Inr m'"
    by (cases "OnUpdate parseIP4 msg m") simp_all
  from Cons.prems(3) s have p: "policyRemovable msg m" and o: "calcGraphOrdered parseIP4 msgs m1"
    by simp_all
  from Cons.IH [OF r step_exact [OF s Cons.prems(2) p] o] show ?case .
qed

lemma new_exact: "indexExact (newBPFEndpointManager l f d r n)"
  by (simp add: indexExact_def newBPFEndpointManager_def users_def policyReferrers_def)

lemma new_sound: "indexSound (newBPFEndpointManager l f d r n)"
  by (simp add: indexSound_def newBPFEndpointManager_def users_def policyReferrers_def)

text \<open>
  Claim C3, as amended. After any sequence of dispatcher messages that the fresh manager
  handles without a panic, every id in \<open>policiesToWorkloads[p]\<close> has a cached endpoint
  that references \<open>p\<close> in some tier's ingress or egress list; and when no policy was
  removed while a cached endpoint referenced it, \<open>policiesToWorkloads[p]\<close> (an absent entry
  read as the empty set) is exactly the set of those ids.
\<close>

theorem policy_index_exact:
  assumes "OnUpdates parseIP4 msgs (newBPFEndpointManager l f d r n) = Inr m"
  shows "users (policiesToWorkloads m) p \<subseteq> policyReferrers m p \<and>
         (calcGraphOrdered parseIP4 msgs (newBPFEndpointManager l f d r n) \<longrightarrow>
            users (policiesToWorkloads m) p = policyReferrers m p)"
  using run_sound [OF assms new_sound] run_exact [OF assms new_exact]
  by (simp add: indexSound_def indexExact_def)


theorem policy_index_exact_witness:
  "\<exists>m. OnUpdates (\<lambda>s. None) orderedMessages exampleManager = Inr m \<and>
        calcGraphOrdered (\<lambda>s. None) orderedMessages exampleManager \<and>
        wlEps m wl1 = Some endpointC \<and>
        users (policiesToWorkloads m) polY = policyReferrers m polY \<and>
        users (policiesToWorkloads m) polY = {wl1}"
proof -
  have "\<exists>m. OnUpdates (\<lambda>s. None) orderedMessages exampleManager = Inr m \<and>
          wlEps m wl1 = Some endpointC \<and> policiesToWorkloads m polY = Some {wl1}"
    by (simp add: orderedMessages_def removePolX_def handler_defs example_defs polY_def
        endpointC_def)
  then obtain m where r: "OnUpdates (\<lambda>s. None) orderedMessages exampleManager = Inr m"
    and c: "wlEps m wl1 = Some endpointC" and u: "policiesToWorkloads m polY = Some {wl1}"
    by blast
  have o: "calcGraphOrdered (\<lambda>s. None) orderedMessages exampleManager"
    by (simp add: orderedMessages_def removePolX_def handler_defs example_defs polY_def
        endpointC_def policyRemovable_def policyReferrers_def policyEdges_def tierEdges_def)
  from r have r': "OnUpdates (\<lambda>s. None) orderedMessages
      (newBPFEndpointManager ''debug'' True False (\<lambda>iface. take 3 iface = ''eth'') 1440) = Inr m"
    by (simp add: exampleManager_def)
  from o have o': "calcGraphOrdered (\<lambda>s. None) orderedMessages
      (newBPFEndpointManager ''debug'' True False (\<lambda>iface. take 3 iface = ''eth'') 1440)"
    by (simp add: exampleManager_def)
  from policy_index_exact [OF r', of polY] o'
  have "users (policiesToWorkloads m) polY = policyReferrers m polY" by blast
  moreover from u have "users (policiesToWorkloads m) polY = {wl1}" by (simp add: users_def)
  ultimately show ?thesis using r o c by blast
qed


text \<open>
  Claim C3 as stated fails: after \<open>polX\<close> is removed while the cached endpoint of \<open>wl1\<close>
  references it, the entry of \<open>polX\<close> is erased from the index although \<open>wl1\<close> still
  references \<open>polX\<close>.
\<close>

theorem policy_index_after_policy_remove:
  "\<exists>m. OnUpdates (\<lambda>s. None) unorderedMessages exampleManager = Inr m \<and>
        wlEps m wl1 = Some endpointA \<and>
        polX \<in> set (policyEdges endpointA) \<and>
        policiesToWorkloads m polX = None \<and>
        users (policiesToWorkloads m) polX \<noteq> policyReferrers m polX"
proof -
  have "\<exists>m. OnUpdates (\<lambda>s. None) unorderedMessages exampleManager = Inr m \<and>
        wlEps m wl1 = Some endpointA \<and>
        polX \<in> set (policyEdges endpointA) \<and>
        policiesToWorkloads m polX = None"
    by (simp add: unorderedMessages_def removePolX_def handler_defs example_defs
        policyEdges_def tierEdges_def)
  then obtain m where r: "OnUpdates (\<lambda>s. None) unorderedMessages exampleManager = Inr m"
    and c: "wlEps m wl1 = Some endpointA" and e: "polX \<in> set (policyEdges endpointA)"
    and n: "policiesToWorkloads m polX = None"
    by blast
  from c e have "wl1 \<in> policyReferrers m polX" by (simp add: policyReferrers_def)
  moreover from n have "users (policiesToWorkloads m) polX = {}" by (simp add: users_def)
  ultimately have "users (policiesToWorkloads m) polX \<noteq> policyReferrers m polX" by auto
  with r c e n show ?thesis by blast
qed


text \<open>
  The profile index misses an endpoint that has no tier: the loop over the profile ids is
  inside the loop over the tiers.
\<close>

lemma profile_index_misses_tierless_endpoint:
  "\<exists>s. onWorkloadEndpointUpdate updateB exampleManager = Inr s \<and>
       wl1 \<in> profileReferrers s prof1 \<and>
       wl1 \<notin> users (profilesToWorkloads s) prof1"
  by (simp add: handler_defs example_defs profileReferrers_def profileEdges_def users_def)

text \<open>A removed endpoint stays in the profile index.\<close>

lemma profile_index_keeps_removed_endpoint:
  "\<exists>s. OnUpdates (\<lambda>s. None)
         [Msg_WorkloadEndpointUpdate updateA, Msg_WorkloadEndpointRemove removeWl1]
         exampleManager = Inr s \<and>
       wl1 \<notin> profileReferrers s prof1 \<and>
       wl1 \<in> users (profilesToWorkloads s) prof1"
  by (simp add: handler_defs example_defs profileReferrers_def profileEdges_def users_def)

subsection \<open>The rule extractor\<close>

lemma extractPols_Inr:
  "map (\<lambda>n. policies m (PolicyID tn n)) names = map Some pols \<Longrightarrow>
   extractPols m d tn names acc =
     Inr (acc @ map (\<lambda>pol. if d = PolDirnIngress then pol_InboundRules pol
                            else pol_OutboundRules pol) pols)"
proof (induction names arbitrary: acc pols)
  case Nil
  then show ?case by simp
next
  case (Cons n names)
  then obtain p ps where "pols = p # ps" by (cases pols) auto
  with Cons show ?case by simp
qed

lemma extractPols_panic:
  "extractPols m d tn names acc = Inl p \<Longrightarrow> p = NilPointerDereference"
  by (induction names arbitrary: acc) (auto split: option.splits)

lemma extractPols_absent:
  "n \<in> set names \<Longrightarrow> policies m (PolicyID tn n) = None \<Longrightarrow>
   extractPols m d tn names acc = Inl NilPointerDereference"
  by (induction names arbitrary: acc) (auto split: option.splits)

lemma extractProfs_Inr:
  "map (\<lambda>n. profiles m (ProfileID n)) names = map Some profs \<Longrightarrow>
   extractProfs m d names acc =
     Inr (acc @ map (\<lambda>prof. if d = PolDirnIngress then prof_InboundRules prof
                            else prof_OutboundRules prof) profs)"
proof (induction names arbitrary: acc profs)
  case Nil
  then show ?case by simp
next
  case (Cons n names)
  then obtain p ps where "profs = p # ps" by (cases profs) auto
  with Cons show ?case by simp
qed

lemma extractTiers_empty:
  "\<forall>t\<in>set tiers. directionalPols d t = [] \<Longrightarrow> extractTiers m d tiers acc = Inr acc"
  by (induction tiers arbitrary: acc) auto

lemma extractTiers_absent:
  "t \<in> set tiers \<Longrightarrow> n \<in> set (directionalPols d t) \<Longrightarrow>
   policies m (PolicyID (tier_Name t) n) = None \<Longrightarrow>
   extractTiers m d tiers acc = Inl NilPointerDereference"
proof (induction tiers arbitrary: acc)
  case Nil
  then show ?case by simp
next
  case (Cons a tiers)
  show ?case
  proof (cases "a = t")
    case True
    with Cons.prems show ?thesis by (auto simp: extractPols_absent)
  next
    case False
    with Cons.prems have "t \<in> set tiers" by simp
    from Cons.IH [OF this Cons.prems(2,3)] show ?thesis
      by (auto split: sum.splits dest: extractPols_panic)
  qed
qed

text \<open>
  Claim C8, as amended. When some tier's directional policy list names a policy that is
  absent from the policy cache, the rule extractor reads a field through the nil policy
  pointer and panics with a nil pointer dereference: it returns no tree.
\<close>

theorem extract_absent_policy_panics:
  assumes "t \<in> set tiers2" and "polName \<in> set (directionalPols direction t)"
    and "policies m (PolicyID (tier_Name t) polName) = None"
  shows "extractRules m tiers2 profileNames direction = Inl NilPointerDereference"
  using extractTiers_absent [OF assms] by (simp add: extractRules_def)

theorem extract_absent_policy_panics_witness:
  "hd (Tiers endpointD) \<in> set (Tiers endpointD) \<and>
   ''polY'' \<in> set (directionalPols PolDirnIngress (hd (Tiers endpointD))) \<and>
   policies managerWithCaches (PolicyID (tier_Name (hd (Tiers endpointD))) ''polX'') \<noteq> None \<and>
   policies managerWithCaches (PolicyID (tier_Name (hd (Tiers endpointD))) ''polY'') = None \<and>
   extractRules managerWithCaches (Tiers endpointD) (ProfileIds endpointD) PolDirnIngress =
     Inl NilPointerDereference"
proof -
  have a: "hd (Tiers endpointD) \<in> set (Tiers endpointD)" by (simp add: endpointD_def)
  have b: "''polY'' \<in> set (directionalPols PolDirnIngress (hd (Tiers endpointD)))"
    by (simp add: endpointD_def directionalPols_def)
  have c: "policies managerWithCaches (PolicyID (tier_Name (hd (Tiers endpointD))) ''polY'') = None"
    by (simp add: endpointD_def managerWithCaches_def polX_def)
  have d: "policies managerWithCaches (PolicyID (tier_Name (hd (Tiers endpointD))) ''polX'') \<noteq> None"
    by (simp add: endpointD_def managerWithCaches_def polX_def)
  from extract_absent_policy_panics [OF a b c] a b c d show ?thesis by simp
qed

text \<open>
  Claim C8 as stated fails: after \<open>polX\<close> is removed while the cached endpoint of \<open>wl1\<close>
  references it, extracting the ingress rules of that endpoint panics; it does not return
  the tree with an empty rule list at the position of \<open>polX\<close>.
\<close>

theorem extract_absent_policy_no_null_list:
  "\<exists>m. OnUpdates (\<lambda>s. None) unorderedMessages exampleManager = Inr m \<and>
        wlEps m wl1 = Some endpointA \<and>
        directionalPols PolDirnIngress (hd (Tiers endpointA)) = [''polX''] \<and>
        policies m polX = None \<and>
        extractRules m (Tiers endpointA) (ProfileIds endpointA) PolDirnIngress =
          Inl NilPointerDereference \<and>
        extractRules m (Tiers endpointA) (ProfileIds endpointA) PolDirnIngress \<noteq>
          Inr [[[]], [[]]]"
  by (simp add: unorderedMessages_def removePolX_def handler_defs example_defs
      extractRules_def directionalPols_def)

text \<open>
  Claim C7, as amended. When every tier's directional policy list is empty and every
  profile name is in the profile cache, the rule extractor omits all tiers and returns the
  tree whose only element is the profiles tier: one entry per profile name, in order, each
  the directional rule list of that profile.
\<close>

theorem extract_only_profiles_tier:
  assumes "\<forall>t\<in>set tiers2. directionalPols direction t = []"
    and "map (\<lambda>n. profiles m (ProfileID n)) profileNames = map Some profs"
  shows "extractRules m tiers2 profileNames direction =
           Inr [map (\<lambda>prof. if direction = PolDirnIngress then prof_InboundRules prof
                             else prof_OutboundRules prof) profs]"
  using extractTiers_empty [OF assms(1)] extractProfs_Inr [OF assms(2)]
  by (simp add: extractRules_def)

theorem extract_only_profiles_tier_witness:
  "directionalPols PolDirnEgress (hd (Tiers endpointA)) = [] \<and>
   profiles managerWithCaches prof1 =
     Some \<lparr>prof_InboundRules = [Rule ''Deny''], prof_OutboundRules = [Rule ''Allow'']\<rparr> \<and>
   extractRules managerWithCaches (Tiers endpointA) (ProfileIds endpointA) PolDirnEgress =
     Inr [[[Rule ''Allow'']]]"
proof -
  have a: "\<forall>t\<in>set (Tiers endpointA). directionalPols PolDirnEgress t = []"
    by (simp add: endpointA_def directionalPols_def)
  have b: "map (\<lambda>n. profiles managerWithCaches (ProfileID n)) (ProfileIds endpointA) =
           map Some [\<lparr>prof_InboundRules = [Rule ''Deny''], prof_OutboundRules = [Rule ''Allow'']\<rparr>]"
    by (simp add: endpointA_def managerWithCaches_def prof1_def)
  from extract_only_profiles_tier [OF a b] a b show ?thesis
    by (simp add: endpointA_def prof1_def)
qed

text \<open>
  Claim C7 as stated fails: for an endpoint whose one tier has an empty egress list and
  whose profile \<open>prof1\<close> is not in the profile cache, extracting the egress rules panics
  and returns no tree.
\<close>

theorem extract_absent_profile_panics:
  "directionalPols PolDirnEgress (hd (Tiers endpointA)) = [] \<and>
   length (Tiers endpointA) = 1 \<and>
   ProfileIds endpointA = [''prof1''] \<and>
   profiles exampleManager prof1 = None \<and>
   extractRules exampleManager (Tiers endpointA) (ProfileIds endpointA) PolDirnEgress =
     Inl NilPointerDereference"
  by (simp add: example_defs newBPFEndpointManager_def extractRules_def directionalPols_def)


subsection \<open>Attaching and the dirty set\<close>

text \<open>
  When the output of \<^verbatim>\<open>tc\<close> contains "Cannot find device" the attach driver returns nil;
  for any other failure it returns the error of \<^verbatim>\<open>tc\<close>.
\<close>

lemma attach_missing_device:
  assumes "bytesContains (fst (tcFilterAdd w fname ap)) ''Cannot find device''"
    and "repinMaps w = None"
  shows "AttachTCProgram w fname ap = Inr None"
  using assms by (cases "tcFilterAdd w fname ap") (auto simp: AttachTCProgram_def)

lemma attach_other_failure:
  assumes "tcFilterAdd w fname ap = (out, Some e)"
    and "\<not> bytesContains out ''Cannot find device''" and "repinMaps w = None"
  shows "AttachTCProgram w fname ap = Inr (Some e)"
  using assms by (simp add: AttachTCProgram_def)

text \<open>
  The caller never passes that error on: after a failed attach it returns the inner
  \<^verbatim>\<open>err\<close> of the program dump, or panics.
\<close>

lemma attach_error_not_returned:
  assumes "tempDir w = Inr dir" and "compileTC w m allRules ap = Inr None"
    and "AttachTCProgram w (dir @ ''/redir_tc.o'') ap = Inr (Some e)"
  shows "compileAndAttachProgram w m allRules ap \<noteq> Inr (Some e')"
  using assms by (auto simp: compileAndAttachProgram_def Let_def split: option.splits)

lemmas attach_defs =
  AttachTCProgram_def compileAndAttachProgram_def compileAndAttachDataIfaceProgram_def
  setAcceptLocal_def dataIfaceWorker_def applyProgramsToDirtyDataInterfaces_def
  calculateTCAttachPoint_def hookFor_def toOrFromFor_def BPFSectionName_def
  BPFSectionToFlags_def bpfSectionToFlags_def flag_defs
  onInterfaceUpdate_def ifaceOf_def exampleManager_def newBPFEndpointManager_def Let_def

text \<open>
  Claim C9, evaluated where it fails. \<open>eth0\<close> is up, matches the data-interface pattern
  and is dirty. Attaching the ingress program fails with an error that is not "Cannot find
  device", and the attach driver returns that error. \<^verbatim>\<open>compileAndAttachProgram\<close> returns
  nil all the same, the worker records nil, and the reconcile pass removes \<open>eth0\<close> from
  the dirty set.
\<close>

theorem attach_failure_clears_dirty:
  "''eth0'' \<in> dirtyIfaces managerEth0Up \<and>
   calculateTCAttachPoint EpTypeHost PolDirnIngress ''eth0'' = Inr eth0Ingress \<and>
   AttachTCProgram tcRefused ''/tmp/calico-compile1/redir_tc.o'' eth0Ingress =
     Inr (Some ''exit status 2'') \<and>
   compileAndAttachProgram tcRefused managerEth0Up [[[Rule ''Allow'']]] eth0Ingress = Inr None \<and>
   dataIfaceWorker tcRefused managerEth0Up ''eth0'' = Inr None \<and>
   (\<exists>m'. applyProgramsToDirtyDataInterfaces tcRefused managerEth0Up = Some m' \<and>
         ''eth0'' \<notin> dirtyIfaces m')"
  by (simp add: attach_defs tcRefused_def managerEth0Up_def eth0Ingress_def)

text \<open>
  With "Cannot find device" on both hooks, and the other steps succeeding, the reconcile
  pass removes \<open>eth0\<close> from the dirty set (scenario 5 of the specification).
\<close>

lemma missing_device_clears_dirty:
  "AttachTCProgram tcNoDevice ''/tmp/calico-compile1/redir_tc.o'' eth0Ingress = Inr None \<and>
   (\<exists>m'. applyProgramsToDirtyDataInterfaces tcNoDevice managerEth0Up = Some m' \<and>
         ''eth0'' \<notin> dirtyIfaces m')"
  by (simp add: attach_defs tcNoDevice_def tcRefused_def managerEth0Up_def eth0Ingress_def)


end
